theory Spec2Isabelle
  imports Main "HOL-Library.AList"
begin

section \<open>Strings, whitespace and decimal numerals\<close>

text \<open>
  A JavaScript string is modelled as a \<^typ>\<open>string\<close>: one \<^typ>\<open>char\<close> per
  UTF-16 code unit, for the code units below 256.  The white space of the regular
  expression class \<^verbatim>\<open>\s\<close> and of \<^verbatim>\<open>String.prototype.trim\<close> is the same set of code
  units; in this range it is TAB, LF, VT, FF, CR, SPACE and NBSP.
\<close>

definition is_space :: "char \<Rightarrow> bool" where
  "is_space c \<longleftrightarrow>
     c \<in> set [CHR 0x09, CHR 0x0A, CHR 0x0B, CHR 0x0C, CHR 0x0D, CHR 0x20, CHR 0xA0]"

definition trim :: "string \<Rightarrow> string" where
  "trim s = rev (dropWhile is_space (rev (dropWhile is_space s)))"

definition digit :: "nat \<Rightarrow> char" where
  "digit d = ''0123456789'' ! d"

function show_nat :: "nat \<Rightarrow> string" where
  "show_nat n = (if n < 10 then [digit n] else show_nat (n div 10) @ [digit (n mod 10)])"
  by pat_completeness auto
termination
  by (relation "measure id") auto

declare show_nat.simps [simp del]

text \<open>
  A JavaScript number, as \<^verbatim>\<open>Number.prototype.toString\<close> reads it: not a number, an
  infinity (\<open>True\<close> for the negative one), or \<open>Finite negative s n\<close>, the number of the
  given sign whose shortest decimal digits are those of \<open>s\<close> without its trailing zeros,
  \<open>k\<close> of them, and whose magnitude is these digits times ten to the power \<open>n - k\<close>
  (\<open>Finite False 42 2\<close> is 42, \<open>Finite False 5 0\<close> is 0.5, \<open>Finite False 1 22\<close> is
  1e21); \<open>s = 0\<close> is zero.
\<close>

datatype number = NaN | Infinite bool | Finite bool nat int

definition significand_digits :: "nat \<Rightarrow> string" where
  "significand_digits s = rev (dropWhile (\<lambda>c. c = CHR ''0'') (rev (show_nat s)))"

text \<open>
  \<^verbatim>\<open>String(x)\<close> of a number (ECMAScript, Number::toString with radix 10): plain digits
  for \<open>n\<close> from -5 to 21, the exponent form otherwise.
\<close>

definition Number_toString :: "number \<Rightarrow> string" where
  "Number_toString x =
     (case x of
        NaN \<Rightarrow> ''NaN''
      | Infinite negative \<Rightarrow> (if negative then ''-Infinity'' else ''Infinity'')
      | Finite negative s n \<Rightarrow>
          if s = 0 then ''0''
          else (if negative then ''-'' else [])
            @ (let ds = significand_digits s; k = int (length ds) in
               if - 5 \<le> n \<and> n \<le> 21
               then (if k \<le> n then ds @ replicate (nat (n - k)) (CHR ''0'')
                     else if 0 < n then take (nat n) ds @ ''.'' @ drop (nat n) ds
                     else ''0.'' @ replicate (nat (- n)) (CHR ''0'') @ ds)
               else (let e = n - 1;
                         exponent = (if e < 0 then ''-'' else ''+'') @ show_nat (nat \<bar>e\<bar>)
                     in if k = 1 then ds @ ''e'' @ exponent
                        else take 1 ds @ ''.'' @ drop 1 ds @ ''e'' @ exponent)))"

text \<open>
  The values a property read can give.  \<open>Obj t\<close> is an object or a function whose
  conversion to a string gives the text \<open>t\<close> (\<^verbatim>\<open>[object Object]\<close> for a plain object,
  the source text for a function); an object whose conversion throws is not among the
  values.  \<open>js_String v\<close> is \<^verbatim>\<open>String(v)\<close>.
\<close>

datatype js_value = Undefined | Null | Bool bool | Num number | Str string | Obj string

fun js_String :: "js_value \<Rightarrow> string" where
  "js_String Undefined = ''undefined''"
| "js_String Null = ''null''"
| "js_String (Bool b) = (if b then ''true'' else ''false'')"
| "js_String (Num x) = Number_toString x"
| "js_String (Str s) = s"
| "js_String (Obj t) = t"

text \<open>
  \<^verbatim>\<open>context.vars\<close> is a plain object: \<open>vars\<close> is the map of its own properties, and
  it inherits the properties of \<^verbatim>\<open>Object.prototype\<close>, which are built-in functions
  (printed by Node as below) and the accessor \<^verbatim>\<open>__proto__\<close>, which gives the prototype
  object itself.
\<close>

type_synonym vars = "string \<rightharpoonup> js_value"

definition native_function :: "string \<Rightarrow> js_value" where
  "native_function name = Obj (''function '' @ name @ ''() { [native code] }'')"

definition Object_prototype :: "(string \<times> js_value) list" where
  "Object_prototype =
     (''constructor'', native_function ''Object'')
     # (''__proto__'', Obj ''[object Object]'')
     # map (\<lambda>name. (name, native_function name))
         [''__defineGetter__'', ''__defineSetter__'', ''hasOwnProperty'', ''__lookupGetter__'',
          ''__lookupSetter__'', ''isPrototypeOf'', ''propertyIsEnumerable'', ''toString'',
          ''valueOf'', ''toLocaleString'']"

text \<open>
  The property read \<^verbatim>\<open>vars[name]\<close>: the own property if there is one, else the
  inherited one, else \<^verbatim>\<open>undefined\<close>.
\<close>

definition property :: "vars \<Rightarrow> string \<Rightarrow> js_value" where
  "property vars name =
     (case vars name of
        Some v \<Rightarrow> v
      | None \<Rightarrow> (case map_of Object_prototype name of Some v \<Rightarrow> v | None \<Rightarrow> Undefined))"

section \<open>The placeholder pattern and \<^verbatim>\<open>resolveTemplate\<close>\<close>

text \<open>
  \<^verbatim>\<open>str.replace(/{{\s*([^}]+)\s*}}/g, (_, key) => ...)\<close>.
  The pattern is matched the way a backtracking matcher does it.  A greedy quantifier over
  a character class first takes one more character and runs the rest of the pattern (the
  continuation \<open>k\<close>, which receives the text the quantifier took and the text left);
  only when the rest fails does it give that character back.
\<close>

fun greedy_star :: "(char \<Rightarrow> bool) \<Rightarrow> string \<Rightarrow> (string \<Rightarrow> string \<Rightarrow> 'a option) \<Rightarrow> 'a option" where
  "greedy_star p [] k = k [] []"
| "greedy_star p (c # cs) k =
     (if p c
      then (case greedy_star p cs (\<lambda>taken. k (c # taken)) of
              Some r \<Rightarrow> Some r
            | None \<Rightarrow> k [] (c # cs))
      else k [] (c # cs))"

definition greedy_plus :: "(char \<Rightarrow> bool) \<Rightarrow> string \<Rightarrow> (string \<Rightarrow> string \<Rightarrow> 'a option) \<Rightarrow> 'a option" where
  "greedy_plus p s k =
     (case s of
        [] \<Rightarrow> None
      | c # cs \<Rightarrow> if p c then greedy_star p cs (\<lambda>taken. k (c # taken)) else None)"

definition lit :: "string \<Rightarrow> string \<Rightarrow> (string \<Rightarrow> 'a option) \<Rightarrow> 'a option" where
  "lit l s k = (if take (length l) s = l then k (drop (length l) s) else None)"

text \<open>The class \<^verbatim>\<open>[^}]\<close>.\<close>

definition not_close :: "char \<Rightarrow> bool" where
  "not_close c \<longleftrightarrow> c \<noteq> CHR ''}''"

text \<open>
  A match of the pattern at the head of \<open>s\<close>: the text of capture group 1 and the text
  after the match.
\<close>

definition placeholder_re :: "string \<Rightarrow> (string \<times> string) option" where
  "placeholder_re s =
     lit ''{{'' s (\<lambda>r0.
       greedy_star is_space r0 (\<lambda>_ r1.
         greedy_plus not_close r1 (\<lambda>key r2.
           greedy_star is_space r2 (\<lambda>_ r3.
             lit ''}}'' r3 (\<lambda>r4. Some (key, r4))))))"

subsection \<open>What the backtracking matcher accepts\<close>

lemma is_space_not_close: "is_space c \<Longrightarrow> not_close c"
  by (auto simp: is_space_def not_close_def)

text \<open>The text behind two closing braces at the head of a string, if they are there.\<close>

fun closing :: "string \<Rightarrow> string option" where
  "closing (c # d # r) = (if c = CHR ''}'' \<and> d = CHR ''}'' then Some r else None)"
| "closing _ = None"

lemma lit_open:
  "lit ''{{'' s k = (case s of c # d # r \<Rightarrow> if c = CHR ''{'' \<and> d = CHR ''{'' then k r else None | _ \<Rightarrow> None)"
  by (cases s; cases "tl s") (auto simp: lit_def)

lemma lit_close: "lit ''}}'' s k = (case closing s of Some r \<Rightarrow> k r | None \<Rightarrow> None)"
  by (cases s rule: closing.cases) (auto simp: lit_def)

lemma closing_Cons_not_close: "not_close c \<Longrightarrow> closing (c # cs) = None"
  by (cases cs) (auto simp: not_close_def)

text \<open>
  The pattern from its end, as continuations: the closing braces, the white space before
  them, and the group with all that follows it.
\<close>

definition close_tail :: "string \<Rightarrow> string \<Rightarrow> (string \<times> string) option" where
  "close_tail key r3 = lit ''}}'' r3 (\<lambda>r4. Some (key, r4))"

lemma close_tail_eq: "close_tail key r3 = map_option (Pair key) (closing r3)"
  by (simp add: close_tail_def lit_close split: option.splits)

definition tail_ws :: "string \<Rightarrow> string \<Rightarrow> (string \<times> string) option" where
  "tail_ws key r2 = greedy_star is_space r2 (\<lambda>_. close_tail key)"

lemma tail_ws_Some: "tail_ws key s = Some x \<Longrightarrow> closing (dropWhile not_close s) \<noteq> None"
proof (induction s)
  case Nil
  then show ?case by (simp add: tail_ws_def close_tail_eq)
next
  case (Cons c cs)
  show ?case
  proof (cases "is_space c")
    case True
    then have nc: "not_close c" by (rule is_space_not_close)
    then have "close_tail key (c # cs) = None"
      by (simp add: close_tail_eq closing_Cons_not_close)
    with Cons.prems True have "tail_ws key cs = Some x"
      by (simp add: tail_ws_def split: option.splits)
    then show ?thesis using Cons.IH nc by simp
  next
    case False
    with Cons.prems have "close_tail key (c # cs) = Some x" by (simp add: tail_ws_def)
    then have t: "closing (c # cs) \<noteq> None" by (auto simp: close_tail_eq)
    then have "\<not> not_close c" using closing_Cons_not_close [of c cs] by auto
    then show ?thesis using t by simp
  qed
qed

lemma tail_ws_at_brace: "\<not> not_close c \<Longrightarrow> tail_ws key (c # cs) = close_tail key (c # cs)"
  using is_space_not_close [of c] by (auto simp: tail_ws_def)

lemma star_group:
  "greedy_star not_close cs (\<lambda>taken. tail_ws (f taken)) =
     map_option (Pair (f (takeWhile not_close cs))) (closing (dropWhile not_close cs))"
proof (induction cs arbitrary: f)
  case Nil
  show ?case by (simp add: tail_ws_def close_tail_eq)
next
  case (Cons c cs)
  show ?case
  proof (cases "not_close c")
    case True
    note IH = Cons.IH [of "\<lambda>t. f (c # t)"]
    show ?thesis
    proof (cases "closing (dropWhile not_close cs)")
      case (Some rest)
      with IH True show ?thesis by simp
    next
      case None
      have "tail_ws (f []) (c # cs) = None"
      proof (cases "tail_ws (f []) (c # cs)")
        case None
        then show ?thesis .
      next
        case (Some x)
        then have "closing (dropWhile not_close (c # cs)) \<noteq> None"
          by (rule tail_ws_Some)
        with True None show ?thesis by simp
      qed
      with IH None True show ?thesis by simp
    qed
  next
    case False
    then show ?thesis by (simp add: tail_ws_at_brace close_tail_eq)
  qed
qed

definition group_tail :: "string \<Rightarrow> (string \<times> string) option" where
  "group_tail r1 = greedy_plus not_close r1 tail_ws"

lemma group_tail_eq:
  "group_tail r1 =
     (if takeWhile not_close r1 = [] then None
      else map_option (Pair (takeWhile not_close r1)) (closing (dropWhile not_close r1)))"
proof (cases r1)
  case Nil
  then show ?thesis by (simp add: group_tail_def greedy_plus_def)
next
  case (Cons c cs)
  show ?thesis
  proof (cases "not_close c")
    case True
    then show ?thesis
      using star_group [of cs "\<lambda>t. c # t"] by (simp add: Cons group_tail_def greedy_plus_def)
  next
    case False
    then show ?thesis by (simp add: Cons group_tail_def greedy_plus_def)
  qed
qed

text \<open>
  What capture group 1 holds when the brace-free text between the braces is \<open>inner\<close>:
  \<open>inner\<close> without its leading white space, or its last character when it is all
  white space (the leading \<^verbatim>\<open>\s*\<close> gives one character back).
\<close>

definition group1 :: "string \<Rightarrow> string" where
  "group1 inner = (if dropWhile is_space inner = [] then [last inner] else dropWhile is_space inner)"

lemma star_lead:
  "greedy_star is_space r (\<lambda>_. group_tail) =
     (if takeWhile not_close r = [] then None
      else map_option (Pair (group1 (takeWhile not_close r))) (closing (dropWhile not_close r)))"
proof (induction r)
  case Nil
  show ?case by (simp add: group_tail_eq)
next
  case (Cons c cs)
  show ?case
  proof (cases "is_space c")
    case True
    then have nc: "not_close c" by (rule is_space_not_close)
    show ?thesis
    proof (cases "closing (dropWhile not_close cs)")
      case None
      with Cons.IH nc True show ?thesis by (simp add: group_tail_eq)
    next
      case (Some rest)
      show ?thesis
      proof (cases "takeWhile not_close cs = []")
        case e: True
        have "group1 [c] = [c]" using True by (simp add: group1_def)
        with Cons.IH e Some nc True show ?thesis by (simp add: group_tail_eq)
      next
        case ne: False
        have "group1 (c # takeWhile not_close cs) = group1 (takeWhile not_close cs)"
          using True ne by (simp add: group1_def)
        with Cons.IH ne Some nc True show ?thesis by simp
      qed
    qed
  next
    case False
    show ?thesis
    proof (cases "not_close c")
      case True
      then have "group1 (c # takeWhile not_close cs) = c # takeWhile not_close cs"
        using False by (simp add: group1_def)
      with True False show ?thesis by (simp add: group_tail_eq)
    next
      case nc: False
      with False show ?thesis by (simp add: group_tail_eq)
    qed
  qed
qed

lemma placeholder_re_unfold:
  "placeholder_re s = lit ''{{'' s (\<lambda>r0. greedy_star is_space r0 (\<lambda>_. group_tail))"
  unfolding placeholder_re_def group_tail_def tail_ws_def close_tail_def ..





lemma placeholder_re_eq:
  "placeholder_re s =
     (case s of
        c # d # r \<Rightarrow>
          if c = CHR ''{'' \<and> d = CHR ''{'' \<and> takeWhile not_close r \<noteq> []
          then map_option (Pair (group1 (takeWhile not_close r))) (closing (dropWhile not_close r))
          else None
      | _ \<Rightarrow> None)"
  by (simp add: placeholder_re_unfold lit_open star_lead split: list.splits)

lemma closing_Some: "closing a = Some rest \<longleftrightarrow> a = ''}}'' @ rest"
  by (cases a rule: closing.cases) auto

lemma placeholder_re_SomeD:
  assumes "placeholder_re s = Some (key, rest)"
  shows "\<exists>inner. s = ''{{'' @ inner @ ''}}'' @ rest \<and> inner \<noteq> [] \<and> CHR ''}'' \<notin> set inner
           \<and> key = group1 inner"
proof -
  from assms obtain r where s: "s = CHR ''{'' # CHR ''{'' # r"
    and ne: "takeWhile not_close r \<noteq> []"
    and cl: "closing (dropWhile not_close r) = Some rest"
    and key: "key = group1 (takeWhile not_close r)"
    by (auto simp: placeholder_re_eq split: list.splits if_splits)
  from cl have d: "dropWhile not_close r = ''}}'' @ rest" by (simp add: closing_Some)
  have "r = takeWhile not_close r @ dropWhile not_close r" by simp
  with d have r: "r = takeWhile not_close r @ ''}}'' @ rest" by simp
  have "CHR ''}'' \<notin> set (takeWhile not_close r)"
    using set_takeWhileD [of "CHR ''}''" not_close r] by (auto simp: not_close_def)
  with s r ne key show ?thesis by auto
qed


lemma placeholder_re_shorter: "placeholder_re s = Some (key, rest) \<Longrightarrow> length rest < length s"
  by (drule placeholder_re_SomeD) auto

text \<open>
  The global replace: the scan starts a match at the leftmost position that has one,
  emits the callback's text for it and continues after the match; a character at which no
  match starts is copied.
\<close>

function replace_placeholders :: "(string \<Rightarrow> string) \<Rightarrow> string \<Rightarrow> string" where
  "replace_placeholders f s =
     (case placeholder_re s of
        Some (key, rest) \<Rightarrow> f key @ replace_placeholders f rest
      | None \<Rightarrow> (case s of [] \<Rightarrow> [] | c # cs \<Rightarrow> c # replace_placeholders f cs))"
  by pat_completeness auto
termination
  by (relation "measure (\<lambda>(f, s). length s)") (auto simp: placeholder_re_shorter)

declare replace_placeholders.simps [simp del]


text \<open>
  \<^verbatim>\<open>if (!str || typeof str !== "string") return str;\<close> returns the empty string as
  it is; the callback reads \<^verbatim>\<open>vars[key.trim()]\<close> and substitutes its
  \<^verbatim>\<open>String(...)\<close>, or the empty string when the read gives \<^verbatim>\<open>undefined\<close>.
\<close>

definition resolveTemplate :: "string \<Rightarrow> vars \<Rightarrow> string" where
  "resolveTemplate str vars =
     (if str = [] then str
      else replace_placeholders
             (\<lambda>key. if property vars (trim key) \<noteq> Undefined
                     then js_String (property vars (trim key)) else []) str)"


text \<open>The replacement text for a trimmed name.\<close>

definition substitute :: "vars \<Rightarrow> string \<Rightarrow> string" where
  "substitute vars name =
     (if property vars name \<noteq> Undefined then js_String (property vars name) else [])"

lemma resolveTemplate_replace:
  "resolveTemplate str vars = replace_placeholders (\<lambda>key. substitute vars (trim key)) str"
  by (simp add: resolveTemplate_def substitute_def replace_placeholders.simps [of _ "[]"]
      placeholder_re_eq)


lemma resolveTemplate_copy:
  assumes "placeholder_re (c # cs) = None"
  shows "resolveTemplate (c # cs) vars = c # resolveTemplate cs vars"
  unfolding resolveTemplate_replace
  by (subst replace_placeholders.simps) (simp only: assms option.case list.case)

text \<open>Some position of the string starts a match of the pattern.\<close>

fun has_match :: "string \<Rightarrow> bool" where
  "has_match [] = False"
| "has_match (c # cs) = (placeholder_re (c # cs) \<noteq> None \<or> has_match cs)"

lemma resolveTemplate_no_match: "\<not> has_match s \<Longrightarrow> resolveTemplate s vars = s"
proof (induction s)
  case Nil
  show ?case by (simp add: resolveTemplate_def)
next
  case (Cons c cs)
  from Cons.prems have n: "placeholder_re (c # cs) = None" and "\<not> has_match cs"
    by (cases "placeholder_re (c # cs)"; simp)+
  with Cons.IH show ?case by (simp add: resolveTemplate_copy [OF n])
qed

lemma has_match_marker:
  "has_match s \<Longrightarrow> \<exists>pre inner rest. s = pre @ ''{{'' @ inner @ ''}}'' @ rest"
proof (induction s)
  case Nil
  then show ?case by simp
next
  case (Cons c cs)
  show ?case
  proof (cases "placeholder_re (c # cs)")
    case None
    with Cons.prems have "has_match cs" by simp
    then obtain pre inner rest where "cs = pre @ ''{{'' @ inner @ ''}}'' @ rest"
      using Cons.IH by blast
    then have "c # cs = (c # pre) @ ''{{'' @ inner @ ''}}'' @ rest" by simp
    then show ?thesis by blast
  next
    case (Some kr)
    obtain key rest where "kr = (key, rest)" by (cases kr)
    with Some obtain inner where "c # cs = ''{{'' @ inner @ ''}}'' @ rest"
      using placeholder_re_SomeD by blast
    then have "c # cs = [] @ ''{{'' @ inner @ ''}}'' @ rest" by simp
    then show ?thesis by blast
  qed
qed

text \<open>The string holds two adjacent opening braces.\<close>

fun has_open :: "string \<Rightarrow> bool" where
  "has_open (c # d # r) = ((c = CHR ''{'' \<and> d = CHR ''{'') \<or> has_open (d # r))"
| "has_open _ = False"

lemma has_open_append: "has_open (pre @ ''{{'' @ t)"
proof (induction pre)
  case Nil
  show ?case by simp
next
  case (Cons c pre)
  then show ?case by (cases "pre @ ''{{'' @ t") auto
qed






text \<open>
  Claim C5.  A string with no \<^verbatim>\<open>{{...}}\<close> marker (no two opening braces followed,
  anywhere later, by two closing braces) is resolved to itself, whatever the variable
  context.
\<close>

theorem resolveTemplate_placeholder_free:
  assumes "\<not> (\<exists>pre inner rest. s = pre @ ''{{'' @ inner @ ''}}'' @ rest)"
  shows "resolveTemplate s vars = s"
proof -
  have "\<not> has_match s" using assms has_match_marker by blast
  then show ?thesis by (rule resolveTemplate_no_match)
qed

theorem resolveTemplate_placeholder_free_witness:
  "\<not> (\<exists>pre inner rest. ''/status?x={y}'' = pre @ ''{{'' @ inner @ ''}}'' @ rest) \<and>
   resolveTemplate ''/status?x={y}'' [''y'' \<mapsto> Str ''1''] = ''/status?x={y}''"
proof -
  have h: "\<not> (\<exists>pre inner rest. ''/status?x={y}'' = pre @ ''{{'' @ inner @ ''}}'' @ rest)"
  proof
    assume "\<exists>pre inner rest. ''/status?x={y}'' = pre @ ''{{'' @ inner @ ''}}'' @ rest"
    then obtain pre inner rest where "''/status?x={y}'' = pre @ ''{{'' @ (inner @ ''}}'' @ rest)"
      by blast
    then have "has_open ''/status?x={y}''" using has_open_append [of pre "inner @ ''}}'' @ rest"] by simp
    then show False by simp
  qed
  show ?thesis using h resolveTemplate_placeholder_free [OF h] by blast
qed

section \<open>JSON values and \<^verbatim>\<open>JSON.stringify\<close>\<close>

text \<open>
  The structured payload of a request (\<^verbatim>\<open>requestParams.json\<close>) and a parsed response
  body are JSON values; an object is the list of its properties in property order.  A
  finite number is printed as \<^const>\<open>Number_toString\<close> prints it, the others as
  \<^verbatim>\<open>null\<close>.
\<close>

datatype json_value =
    JNull
  | JBool bool
  | JNum number
  | JStr string
  | JArr "json_value list"
  | JObj "(string \<times> json_value) list"

definition hex_digit :: "nat \<Rightarrow> char" where
  "hex_digit d = ''0123456789abcdef'' ! d"

text \<open>The escapes of a JSON string: the quote, the backslash and the control characters.\<close>

definition escape_char :: "char \<Rightarrow> string" where
  "escape_char c =
     (if c = CHR 0x22 then [CHR 0x5C, CHR 0x22]
      else if c = CHR 0x5C then [CHR 0x5C, CHR 0x5C]
      else if c = CHR 0x08 then [CHR 0x5C, CHR ''b'']
      else if c = CHR 0x0C then [CHR 0x5C, CHR ''f'']
      else if c = CHR 0x0A then [CHR 0x5C, CHR ''n'']
      else if c = CHR 0x0D then [CHR 0x5C, CHR ''r'']
      else if c = CHR 0x09 then [CHR 0x5C, CHR ''t'']
      else if (of_char c :: nat) < 32
        then [CHR 0x5C, CHR ''u'', CHR ''0'', CHR ''0'',
              hex_digit (of_char c div 16), hex_digit (of_char c mod 16)]
      else [c])"

definition quote :: "string \<Rightarrow> string" where
  "quote s = [CHR 0x22] @ concat (map escape_char s) @ [CHR 0x22]"

fun intercalate :: "string \<Rightarrow> string list \<Rightarrow> string" where
  "intercalate sep [] = []"
| "intercalate sep [x] = x"
| "intercalate sep (x # y # ys) = x @ sep @ intercalate sep (y # ys)"

text \<open>
  \<open>stringify gap indent v\<close>: with the empty \<open>gap\<close> the compact text of
  \<^verbatim>\<open>JSON.stringify(v)\<close>, with a gap of two spaces the indented text of
  \<^verbatim>\<open>JSON.stringify(v, null, 2)\<close>.
\<close>

fun stringify :: "string \<Rightarrow> string \<Rightarrow> json_value \<Rightarrow> string" where
  "stringify gap indent JNull = ''null''"
| "stringify gap indent (JBool b) = (if b then ''true'' else ''false'')"
| "stringify gap indent (JNum x) =
     (case x of Finite negative s n \<Rightarrow> Number_toString x | _ \<Rightarrow> ''null'')"
| "stringify gap indent (JStr s) = quote s"
| "stringify gap indent (JArr xs) =
     (if xs = [] then ''[]''
      else if gap = []
        then ''['' @ intercalate '','' (map (stringify gap (indent @ gap)) xs) @ '']''
        else ''['' @ [CHR 0x0A] @ indent @ gap
             @ intercalate ('','' @ [CHR 0x0A] @ indent @ gap)
                 (map (stringify gap (indent @ gap)) xs)
             @ [CHR 0x0A] @ indent @ '']'')"
| "stringify gap indent (JObj kvs) =
     (if kvs = [] then ''{}''
      else if gap = []
        then ''{'' @ intercalate '',''
               (map (\<lambda>(k, v). quote k @ '':'' @ stringify gap (indent @ gap) v) kvs) @ ''}''
        else ''{'' @ [CHR 0x0A] @ indent @ gap
             @ intercalate ('','' @ [CHR 0x0A] @ indent @ gap)
                 (map (\<lambda>(k, v). quote k @ '': '' @ stringify gap (indent @ gap) v) kvs)
             @ [CHR 0x0A] @ indent @ ''}'')"

definition JSON_stringify :: "json_value \<Rightarrow> string" where
  "JSON_stringify v = stringify [] [] v"

definition JSON_stringify_pretty :: "json_value \<Rightarrow> string" where
  "JSON_stringify_pretty v = stringify ''  '' [] v"

text \<open>The truth value of a JSON value in a condition (\<^verbatim>\<open>if (requestParams.json)\<close>).\<close>

fun truthy :: "json_value \<Rightarrow> bool" where
  "truthy JNull = False"
| "truthy (JBool b) = b"
| "truthy (JNum x) = (case x of NaN \<Rightarrow> False | Infinite negative \<Rightarrow> True | Finite negative s n \<Rightarrow> s \<noteq> 0)"
| "truthy (JStr s) = (s \<noteq> [])"
| "truthy (JArr xs) = True"
| "truthy (JObj kvs) = True"

text \<open>A structured payload is an object or an array.\<close>

fun structured :: "json_value \<Rightarrow> bool" where
  "structured (JArr xs) = True"
| "structured (JObj kvs) = True"
| "structured _ = False"

section \<open>Errors, the log files and the environment\<close>

text \<open>
  A thrown JavaScript exception carries its message.  The three named kinds are the error
  kinds of the signing component.
\<close>

datatype error =
    MissingCredentials
  | CanonicalizationFailure
  | SigningComputationFailure
  | Thrown string

fun message :: "error \<Rightarrow> string" where
  "message MissingCredentials = ''MissingCredentials''"
| "message CanonicalizationFailure = ''CanonicalizationFailure''"
| "message SigningComputationFailure = ''SigningComputationFailure''"
| "message (Thrown m) = m"

datatype log_file = RESPONSE_LOG | ERROR_LOG | DEBUG_LOG

text \<open>
  What the functions read and write outside their arguments: the three append-only log
  files (each the list of the chunks appended to it), the clock (\<open>now\<close> is
  \<^verbatim>\<open>new Date().toISOString()\<close> during the call) and the files that
  \<^verbatim>\<open>fs.readFileSync(path, "utf8")\<close> reads (\<open>Inl\<close> when it throws).  A log file may
  be one that cannot be appended to (a missing directory, a file without write
  permission): \<open>unwritable w file\<close> is then the error that \<^verbatim>\<open>fs.appendFileSync\<close>
  throws.  Console output is not part of the model.
\<close>

record world =
  logs :: "log_file \<Rightarrow> string list"
  now :: string
  files :: "string \<Rightarrow> error + string"
  unwritable :: "log_file \<Rightarrow> error option"

text \<open>\<^verbatim>\<open>logToFile(file, message)\<close>: the world with the line appended, or the error thrown.\<close>

definition logToFile :: "log_file \<Rightarrow> string \<Rightarrow> world \<Rightarrow> error + world" where
  "logToFile file msg w =
     (case unwritable w file of
        Some err \<Rightarrow> Inl err
      | None \<Rightarrow>
          Inr (w\<lparr>logs := (logs w)(file := logs w file @ [''['' @ now w @ ''] '' @ msg @ [CHR 0x0A]])\<rparr>))"

text \<open>
  The module constants read from \<^verbatim>\<open>process.env\<close> when the module is loaded; an unset
  variable is \<open>None\<close> (\<^verbatim>\<open>undefined\<close>).  The two flags are the results of the
  comparisons with \<^verbatim>\<open>"true"\<close>.
\<close>

record env =
  TARGET_HOST :: "string option"
  AWS_REGION :: "string option"
  APP_AWS_KEY :: "string option"
  APP_AWS_SECRET :: "string option"
  APP_AWS_SESSION :: "string option"
  DEBUG_LOG_BODY_ENABLED :: bool
  RESPONSE_LOG_BODY_ENABLED :: bool

definition SERVICE_NAME :: string where
  "SERVICE_NAME = ''execute-api''"

section \<open>The request descriptor and \<^verbatim>\<open>signRequest\<close>\<close>

text \<open>
  A headers object is the list of its properties in insertion order, with distinct names;
  a value is \<open>None\<close> when the property holds \<^verbatim>\<open>undefined\<close>.  Setting a property
  (\<^const>\<open>AList.update\<close>) replaces the value of an existing name in place and appends a new
  name.  In a request descriptor the URL is a string and the headers are an object, as
  the load-testing tool supplies them; \<^verbatim>\<open>method\<close>, \<^verbatim>\<open>json\<close> and \<^verbatim>\<open>body\<close> are
  \<open>None\<close> when the property is absent.  A body is a string or an object; on
  \<open>BodyUnserializable err\<close>, an object with a cycle or a BigInt in it,
  \<^verbatim>\<open>JSON.stringify\<close> throws \<open>err\<close>.
\<close>

type_synonym headers = "(string \<times> string option) list"

datatype request_body = BodyText string | BodyObject json_value | BodyUnserializable error

record requestParams =
  url :: string
  http_method :: "string option"
  headers :: headers
  json :: "json_value option"
  body :: "request_body option"

text \<open>
  The fields of the object \<^verbatim>\<open>url.parse\<close> returns that matter here; a field is
  \<open>None\<close> when it is \<^verbatim>\<open>null\<close>.
\<close>

record Url =
  protocol :: "string option"
  u_host :: "string option"
  pathname :: "string option"
  search :: "string option"
  hash :: "string option"

text \<open>The object \<^verbatim>\<open>opts\<close> handed to the signer, and the credentials object.\<close>

record opts =
  host :: "string option"
  o_method :: "string option"
  path :: string
  service :: string
  region :: "string option"
  o_body :: "string option"
  o_headers :: headers

record credentials =
  accessKeyId :: "string option"
  secretAccessKey :: "string option"
  sessionToken :: "string option"

text \<open>
  \<^verbatim>\<open>url.parse\<close> (Node's library) and \<^verbatim>\<open>aws4.sign\<close> (a dependency) are not part of the
  repository: they are parameters of the model.  Both may throw (\<open>Inl\<close>).  The signer
  receives \<^verbatim>\<open>opts\<close>, the credentials and the clock it reads, and returns the headers
  of the signed request.
\<close>

type_synonym url_parser = "string \<Rightarrow> error + Url"
type_synonym signer = "opts \<Rightarrow> credentials \<Rightarrow> string \<Rightarrow> error + headers"

text \<open>
  \<^verbatim>\<open>parsedUrl.pathname + (parsedUrl.search || '')\<close>: a \<^verbatim>\<open>null\<close> pathname is
  concatenated as the text \<^verbatim>\<open>null\<close>.
\<close>

definition canonicalPath_of :: "Url \<Rightarrow> string" where
  "canonicalPath_of parsedUrl =
     (case pathname parsedUrl of None \<Rightarrow> ''null'' | Some p \<Rightarrow> p)
     @ (case search parsedUrl of None \<Rightarrow> [] | Some q \<Rightarrow> q)"

text \<open>
  The local \<^verbatim>\<open>body\<close>: set only when \<^verbatim>\<open>requestParams.json\<close> is truthy, to the
  resolved text of the serialized payload.
\<close>

definition signed_body :: "requestParams \<Rightarrow> vars \<Rightarrow> string option" where
  "signed_body requestParams vars =
     (case json requestParams of
        None \<Rightarrow> None
      | Some j \<Rightarrow> if truthy j then Some (resolveTemplate (JSON_stringify j) vars) else None)"

text \<open>\<^verbatim>\<open>if (body) logToFile(DEBUG_LOG, ...)\<close>, for a body that was set.\<close>

definition debug_logged :: "string \<Rightarrow> world \<Rightarrow> error + world" where
  "debug_logged b w =
     (if b = [] then Inr w
      else logToFile DEBUG_LOG (''POST Body Signed Content: '' @ take 100 b) w)"

text \<open>The object literal \<^verbatim>\<open>opts\<close>; the spread copies the request's headers.\<close>

definition signing_opts :: "env \<Rightarrow> requestParams \<Rightarrow> string \<Rightarrow> string option \<Rightarrow> opts" where
  "signing_opts e requestParams canonicalPath body' =
     \<lparr>host = TARGET_HOST e,
      o_method = http_method requestParams,
      path = canonicalPath,
      service = SERVICE_NAME,
      region = AWS_REGION e,
      o_body = body',
      o_headers = AList.update ''Host'' (TARGET_HOST e) (headers requestParams)\<rparr>"

text \<open>The object literal \<^verbatim>\<open>creds\<close>; an empty session token becomes \<^verbatim>\<open>undefined\<close>.\<close>

definition signing_creds :: "env \<Rightarrow> credentials" where
  "signing_creds e =
     \<lparr>accessKeyId = APP_AWS_KEY e,
      secretAccessKey = APP_AWS_SECRET e,
      sessionToken = (case APP_AWS_SESSION e of
                        None \<Rightarrow> None
                      | Some t \<Rightarrow> if t = [] then None else Some t)\<rparr>"

text \<open>
  \<^verbatim>\<open>signRequest(requestParams, context, ee, next)\<close>, with \<open>vars\<close> for
  \<^verbatim>\<open>context.vars\<close>.  The result is the argument passed to \<^verbatim>\<open>next\<close> (\<open>None\<close> for
  \<^verbatim>\<open>next()\<close>), the request descriptor as the call leaves it, and the world.  Everything
  runs inside \<^verbatim>\<open>try\<close>: an exception of \<^verbatim>\<open>url.parse\<close>, of the append to the debug
  log or of the signer goes to \<^verbatim>\<open>next(err)\<close>, and what was assigned before it stays
  assigned.
\<close>

definition signRequest ::
  "url_parser \<Rightarrow> signer \<Rightarrow> env \<Rightarrow> requestParams \<Rightarrow> vars \<Rightarrow> world
     \<Rightarrow> error option \<times> requestParams \<times> world" where
  "signRequest url_parse aws4_sign e requestParams vars w =
     (let resolvedUrl = resolveTemplate (url requestParams) vars in
      case url_parse resolvedUrl of
        Inl err \<Rightarrow> (Some err, requestParams, w)
      | Inr parsedUrl \<Rightarrow>
          let canonicalPath = canonicalPath_of parsedUrl;
              body' = signed_body requestParams vars;
              requestParams1 =
                (case body' of
                   None \<Rightarrow> requestParams
                 | Some b \<Rightarrow> requestParams\<lparr>body := Some (BodyText b), json := None\<rparr>);
              opts = signing_opts e requestParams canonicalPath body';
              creds = signing_creds e
          in case (case body' of None \<Rightarrow> Inr w | Some b \<Rightarrow> debug_logged b w) of
               Inl err \<Rightarrow> (Some err, requestParams1, w)
             | Inr w1 \<Rightarrow>
                 (case aws4_sign opts creds (now w1) of
                    Inl err \<Rightarrow> (Some err, requestParams1, w1)
                  | Inr signed_headers \<Rightarrow>
                      (None, requestParams1\<lparr>url := canonicalPath, headers := signed_headers\<rparr>,
                       w1)))"

section \<open>The earlier versions of \<^verbatim>\<open>signRequest\<close>\<close>

text \<open>
  \<^verbatim>\<open>url.parse(u).path\<close>: Node sets \<^verbatim>\<open>path\<close> to the pathname followed by the search
  when one of them is there, and leaves it \<^verbatim>\<open>null\<close> otherwise.
\<close>

definition Url_path :: "Url \<Rightarrow> string option" where
  "Url_path parsedUrl =
     (case (pathname parsedUrl, search parsedUrl) of
        (None, None) \<Rightarrow> None
      | (p, q) \<Rightarrow> Some ((case p of None \<Rightarrow> [] | Some p' \<Rightarrow> p') @ (case q of None \<Rightarrow> [] | Some q' \<Rightarrow> q')))"

text \<open>
  The object \<^verbatim>\<open>options\<close> of the two earlier versions (\<^verbatim>\<open>custom-signer.js\<close> and
  \<^verbatim>\<open>utilities/custom-artillery-utils.js\<close>).  They call \<^verbatim>\<open>aws4.sign(options)\<close> with
  one argument, so the signer finds the credentials itself.  The signer works on the
  object it is given and returns it: \<open>Inr\<close> is that object as the call leaves it, with
  the signed headers and with whatever the signer wrote to its other fields.  The headers
  of \<^verbatim>\<open>options\<close> are the request's own headers object, so a signer that throws may
  have written to it before: \<open>Inl\<close> carries the error and the request's headers as the
  signer left them.
\<close>

record options =
  opt_host :: "string option"
  opt_method :: string
  opt_path :: "string option"
  opt_service :: string
  opt_region :: "string option"
  opt_headers :: headers
  opt_body :: "string option"

type_synonym default_signer = "options \<Rightarrow> string \<Rightarrow> error \<times> headers + options"

text \<open>
  \<^verbatim>\<open>requestParams.json ? JSON.stringify(requestParams.json) : undefined\<close>: the earlier
  versions do not resolve templates.
\<close>

definition unresolved_body :: "requestParams \<Rightarrow> string option" where
  "unresolved_body requestParams =
     (case json requestParams of
        None \<Rightarrow> None
      | Some j \<Rightarrow> if truthy j then Some (JSON_stringify j) else None)"

text \<open>
  The object literal \<^verbatim>\<open>options\<close>, with the host and the region as the version has
  them (constants in \<^verbatim>\<open>custom-signer.js\<close>, environment variables in the utilities);
  \<^verbatim>\<open>requestParams.method || "GET"\<close> replaces an absent or empty method.
\<close>

definition earlier_options ::
  "string option \<Rightarrow> string option \<Rightarrow> requestParams \<Rightarrow> string option \<Rightarrow> options" where
  "earlier_options target_host region' requestParams requestPath =
     \<lparr>opt_host = target_host,
      opt_method = (case http_method requestParams of
                      None \<Rightarrow> ''GET''
                    | Some m \<Rightarrow> if m = [] then ''GET'' else m),
      opt_path = requestPath,
      opt_service = ''execute-api'',
      opt_region = region',
      opt_headers = headers requestParams,
      opt_body = unresolved_body requestParams\<rparr>"

text \<open>\<^verbatim>\<open>if (body) requestParams.body = body\<close>.\<close>

definition with_body :: "string option \<Rightarrow> requestParams \<Rightarrow> requestParams" where
  "with_body b requestParams =
     (case b of
        None \<Rightarrow> requestParams
      | Some t \<Rightarrow> if t = [] then requestParams else requestParams\<lparr>body := Some (BodyText t)\<rparr>)"

text \<open>\<^verbatim>\<open>signRequest\<close> of \<^verbatim>\<open>custom-signer.js\<close>; \<open>clock\<close> is the time the signer reads.\<close>

definition signRequest_custom_signer ::
  "url_parser \<Rightarrow> default_signer \<Rightarrow> requestParams \<Rightarrow> string \<Rightarrow> error option \<times> requestParams" where
  "signRequest_custom_signer url_parse aws4_sign requestParams clock =
     (case url_parse (url requestParams) of
        Inl err \<Rightarrow> (Some err, requestParams)
      | Inr parsedUrl \<Rightarrow>
          (let body' = unresolved_body requestParams;
               options = earlier_options (Some ''xc2wojfn0c.execute-api.us-east-2.amazonaws.com'')
                           (Some ''us-east-2'') requestParams (Url_path parsedUrl)
           in case aws4_sign options clock of
                Inl (err, touched) \<Rightarrow> (Some err, requestParams\<lparr>headers := touched\<rparr>)
              | Inr signedRequest \<Rightarrow>
                  (None, with_body body' (requestParams\<lparr>headers := opt_headers signedRequest\<rparr>))))"

text \<open>A value in a template literal; \<open>missing\<close> is the text of \<^verbatim>\<open>null\<close> or \<^verbatim>\<open>undefined\<close>.\<close>

definition js_text :: "string option \<Rightarrow> string \<Rightarrow> string" where
  "js_text v missing = (case v of None \<Rightarrow> missing | Some t \<Rightarrow> t)"



section \<open>\<^verbatim>\<open>loadCsvData\<close> and \<^verbatim>\<open>afterResponse\<close>\<close>

text \<open>
  A record of a CSV file maps column names to values.  \<^verbatim>\<open>parse\<close> (the library
  \<^verbatim>\<open>csv-parse/sync\<close>, called with \<^verbatim>\<open>columns: true, skip_empty_lines: true\<close>) is a
  parameter; it throws on a malformed file.  The result of \<^verbatim>\<open>loadCsvData\<close> is what the
  call returns, with the world it leaves (\<open>Inr\<close>), or what it throws into its caller
  (\<open>Inl\<close>).  An exception of the \<^verbatim>\<open>try\<close> block, the append to the debug log included,
  is caught; one of the append in the \<^verbatim>\<open>catch\<close> block is not.
\<close>

type_synonym row = "(string \<times> string) list"

definition loadCsvData ::
  "(string \<Rightarrow> error + row list) \<Rightarrow> string \<Rightarrow> world \<Rightarrow> error + row list \<times> world" where
  "loadCsvData parse filePath w =
     (case (case files w filePath of
              Inl err \<Rightarrow> Inl err
            | Inr csvContent \<Rightarrow>
                (case parse csvContent of
                   Inl err \<Rightarrow> Inl err
                 | Inr records \<Rightarrow>
                     (case logToFile DEBUG_LOG
                             (''Loaded '' @ show_nat (length records) @ '' records from CSV: ''
                              @ filePath) w of
                        Inl err \<Rightarrow> Inl err
                      | Inr w' \<Rightarrow> Inr (records, w')))) of
        Inr returned \<Rightarrow> Inr returned
      | Inl err \<Rightarrow>
          (case logToFile ERROR_LOG (''CSV Load Failed for '' @ filePath @ '': '' @ message err) w of
             Inl err' \<Rightarrow> Inl err'
           | Inr w' \<Rightarrow> Inr ([], w')))"

text \<open>
  A response body is a buffer (given by its UTF-8 text), a string or an object; on
  \<open>Unserializable err\<close>, an object with a cycle or a BigInt in it,
  \<^verbatim>\<open>JSON.stringify\<close> throws \<open>err\<close>.  The status code is a natural number (of three
  digits, as the HTTP parser yields it), printed with its digits.
\<close>

datatype payload = Buffer string | Text string | Object json_value | Unserializable error

record response =
  statusCode :: nat
  r_body :: "payload option"

text \<open>\<^verbatim>\<open>s.substring(0, 500)\<close> followed by \<^verbatim>\<open>"..."\<close> when \<open>s\<close> is longer.\<close>

definition snippet :: "string \<Rightarrow> string" where
  "snippet s = take 500 s @ (if length s > 500 then ''...'' else [])"

text \<open>The two texts the hook computes first; \<open>Inl\<close> when \<^verbatim>\<open>JSON.stringify\<close> throws.\<close>

definition responseBodyText :: "response option \<Rightarrow> error + string" where
  "responseBodyText resp =
     (case resp of
        None \<Rightarrow> Inr ''<no response body>''
      | Some r \<Rightarrow>
          (case r_body r of
             None \<Rightarrow> Inr ''<no response body>''
           | Some (Buffer b) \<Rightarrow> Inr b
           | Some (Text s) \<Rightarrow> Inr (if s = [] then ''<no response body>'' else s)
           | Some (Object j) \<Rightarrow>
               Inr (if truthy j then JSON_stringify_pretty j else ''<no response body>'')
           | Some (Unserializable err) \<Rightarrow> Inl err))"

definition requestBodyText :: "requestParams \<Rightarrow> error + string" where
  "requestBodyText requestParams =
     (case body requestParams of
        None \<Rightarrow> Inr ''<no request body>''
      | Some (BodyText s) \<Rightarrow> Inr (if s = [] then ''<no request body>'' else s)
      | Some (BodyObject j) \<Rightarrow>
          Inr (if truthy j then JSON_stringify_pretty j else ''<no request body>'')
      | Some (BodyUnserializable err) \<Rightarrow> Inl err)"

text \<open>\<^verbatim>\<open>logToFile(file, message)\<close> followed by \<^verbatim>\<open>return next()\<close>.\<close>

definition logged_then_next :: "log_file \<Rightarrow> string \<Rightarrow> world \<Rightarrow> (error + error option) \<times> world" where
  "logged_then_next file msg w =
     (case logToFile file msg w of Inl err \<Rightarrow> (Inl err, w) | Inr w' \<Rightarrow> (Inr None, w'))"

text \<open>
  \<^verbatim>\<open>afterResponse(requestParams, response, context, ee, next)\<close>.  The result is
  \<open>Inr a\<close> when the hook returns after \<^verbatim>\<open>next(a)\<close> (\<open>Inr None\<close> for \<^verbatim>\<open>next()\<close>),
  and \<open>Inl err\<close> when it throws: nothing in the hook catches an exception of
  \<^verbatim>\<open>JSON.stringify\<close> or of the append to a log file.
\<close>

definition afterResponse ::
  "env \<Rightarrow> requestParams \<Rightarrow> response option \<Rightarrow> world \<Rightarrow> (error + error option) \<times> world" where
  "afterResponse e requestParams resp w =
     (let requestUrl = js_text (http_method requestParams) ''undefined'' @ '' '' @ url requestParams in
      case responseBodyText resp of
        Inl err \<Rightarrow> (Inl err, w)
      | Inr responseBodyText' \<Rightarrow>
      case requestBodyText requestParams of
        Inl err \<Rightarrow> (Inl err, w)
      | Inr requestBodyText' \<Rightarrow>
      case resp of
        None \<Rightarrow>
          (let errorMsg = ''No response received for '' @ requestUrl @ ''.''
                 @ (if DEBUG_LOG_BODY_ENABLED e
                    then '' Request Body: '' @ snippet requestBodyText' else [])
           in logged_then_next ERROR_LOG errorMsg w)
      | Some r \<Rightarrow>
          (let statusCode' = statusCode r;
               logMessage = show_nat statusCode' @ '' '' @ requestUrl @ '' | Response Snippet: ''
                 @ snippet responseBodyText'
           in if statusCode' \<ge> 400
              then (let logMessage' = logMessage
                          @ (if DEBUG_LOG_BODY_ENABLED e
                             then [CHR 0x0A] @ ''REQUEST BODY: '' @ snippet requestBodyText'
                             else [])
                    in if RESPONSE_LOG_BODY_ENABLED e
                       then logged_then_next ERROR_LOG logMessage' w
                       else (Inr None, w))
              else if statusCode' \<ge> 200 \<and> statusCode' < 400 \<and> RESPONSE_LOG_BODY_ENABLED e
              then logged_then_next RESPONSE_LOG logMessage w
              else if RESPONSE_LOG_BODY_ENABLED e
              then logged_then_next DEBUG_LOG (''[Other Status] '' @ logMessage) w
              else (Inr None, w)))"

section \<open>Example inputs\<close>

text \<open>
  A test double for \<^verbatim>\<open>url.parse\<close> on a relative reference without a fragment: the
  text up to the first question mark is the pathname, the rest the search; a part that is
  empty is \<^verbatim>\<open>null\<close>, as in Node.
\<close>

definition relative_url_parse :: url_parser where
  "relative_url_parse u =
     (let p = takeWhile (\<lambda>c. c \<noteq> CHR ''?'') u; q = dropWhile (\<lambda>c. c \<noteq> CHR ''?'') u
      in Inr \<lparr>protocol = None, u_host = None,
              pathname = (if p = [] then None else Some p),
              search = (if q = [] then None else Some q),
              hash = None\<rparr>)"

definition rejecting_url_parse :: url_parser where
  "rejecting_url_parse u = Inl (Thrown ''Invalid URL'')"

text \<open>
  Test doubles for the signer: one returns the headers it was given together with the
  path and the body it was asked to sign, one throws; and the same two for the signer
  called with one argument.
\<close>

definition recording_signer :: signer where
  "recording_signer opts creds t =
     Inr (AList.update ''Signed-Body'' (o_body opts)
            (AList.update ''Signed-Path'' (Some (path opts)) (o_headers opts)))"

definition failing_signer :: signer where
  "failing_signer opts creds t = Inl (Thrown ''signing failed'')"


definition failing_default_signer :: default_signer where
  "failing_default_signer options clock = Inl (Thrown ''signing failed'', opt_headers options)"

definition example_env :: env where
  "example_env =
     \<lparr>TARGET_HOST = Some ''api.example.com'', AWS_REGION = Some ''us-east-1'',
      APP_AWS_KEY = Some ''AKIDEXAMPLE'', APP_AWS_SECRET = Some ''secret'',
      APP_AWS_SESSION = None,
      DEBUG_LOG_BODY_ENABLED = False, RESPONSE_LOG_BODY_ENABLED = True\<rparr>"

text \<open>A world with empty, writable logs, and one whose log files cannot be appended to.\<close>

definition example_world :: world where
  "example_world =
     \<lparr>logs = (\<lambda>_. []), now = ''2024-01-01T00:00:00.000Z'',
      files = (\<lambda>_. Inl (Thrown ''ENOENT: no such file or directory'')),
      unwritable = (\<lambda>_. None)\<rparr>"

definition readonly_world :: world where
  "readonly_world = example_world\<lparr>unwritable := (\<lambda>_. Some (Thrown ''EACCES: permission denied''))\<rparr>"

definition example_request :: requestParams where
  "example_request =
     \<lparr>url = ''/items/{{ name }}?v=1'', http_method = Some ''POST'',
      headers = [(''Content-Type'', Some ''application/json'')],
      json = Some (JObj [(''id'', JStr ''{{name}}'')]), body = None\<rparr>"

definition example_vars :: vars where
  "example_vars = [''name'' \<mapsto> Str ''42'']"


section \<open>Properties of \<^verbatim>\<open>signRequest\<close>\<close>



lemma now_debug_logged: "debug_logged b w = Inr w1 \<Longrightarrow> now w1 = now w"
  by (auto simp: debug_logged_def logToFile_def split: if_splits option.splits)



lemma example_url: "resolveTemplate ''/items/{{ name }}?v=1'' example_vars = ''/items/42?v=1''"
  unfolding example_vars_def by code_simp

lemma example_parse:
  "relative_url_parse ''/items/42?v=1''
     = Inr \<lparr>protocol = None, u_host = None, pathname = Some ''/items/42'',
            search = Some ''?v=1'', hash = None\<rparr>"
  by (simp add: relative_url_parse_def)








text \<open>
  The two earlier versions of \<^verbatim>\<open>signRequest\<close> hand the signer the serialized
  payload as it is, without resolving its placeholders.
\<close>

lemma earlier_signRequest_signs_unresolved:
  assumes "json rp = Some j" and "truthy j"
  shows "opt_body (earlier_options target_host region' rp p) = Some (JSON_stringify j)"
  using assms by (simp add: earlier_options_def unresolved_body_def)

text \<open>
  Claim C4.  When \<^verbatim>\<open>url.parse\<close> throws on the resolved URL, or the signer throws,
  \<^verbatim>\<open>signRequest\<close> passes that error to \<^verbatim>\<open>next\<close> and leaves the descriptor's
  headers and URL as they were; so it does when the line for the debug log cannot be
  appended, in which case the signer is not reached.  \<^verbatim>\<open>next()\<close> without an error
  happens only after both steps succeeded, with the signer's headers in the descriptor.
  (Template resolution and the serialization of a JSON value do not throw.)  The
  \<^verbatim>\<open>signRequest\<close> of \<^verbatim>\<open>custom-signer.js\<close> passes the error of either step to
  \<^verbatim>\<open>next\<close> in the same way.
\<close>

theorem signRequest_surfaces_failures:
  "(url_parse (resolveTemplate (url rp) vars) = Inl err \<longrightarrow>
      signRequest url_parse aws4_sign e rp vars w = (Some err, rp, w)) \<and>
   (url_parse (resolveTemplate (url rp) vars) = Inr pu \<and>
    (signed_body rp vars = None \<or> unwritable w DEBUG_LOG = None) \<and>
    aws4_sign (signing_opts e rp (canonicalPath_of pu) (signed_body rp vars)) (signing_creds e) (now w)
      = Inl err' \<longrightarrow>
      fst (signRequest url_parse aws4_sign e rp vars w) = Some err' \<and>
      headers (fst (snd (signRequest url_parse aws4_sign e rp vars w))) = headers rp \<and>
      url (fst (snd (signRequest url_parse aws4_sign e rp vars w))) = url rp) \<and>
   (url_parse (resolveTemplate (url rp) vars) = Inr pu \<and>
    signed_body rp vars = Some b \<and> debug_logged b w = Inl err'' \<longrightarrow>
      fst (signRequest url_parse aws4_sign e rp vars w) = Some err'' \<and>
      headers (fst (snd (signRequest url_parse aws4_sign e rp vars w))) = headers rp \<and>
      url (fst (snd (signRequest url_parse aws4_sign e rp vars w))) = url rp) \<and>
   (fst (signRequest url_parse aws4_sign e rp vars w) = None \<longrightarrow>
      (\<exists>pu' h. url_parse (resolveTemplate (url rp) vars) = Inr pu' \<and>
         aws4_sign (signing_opts e rp (canonicalPath_of pu') (signed_body rp vars)) (signing_creds e)
           (now w) = Inr h \<and>
         headers (fst (snd (signRequest url_parse aws4_sign e rp vars w))) = h)) \<and>
   (parse_url (url rq) = Inl er \<longrightarrow>
      signRequest_custom_signer parse_url default_sign rq clock = (Some er, rq)) \<and>
   (parse_url (url rq) = Inr pq \<and>
    default_sign (earlier_options (Some ''xc2wojfn0c.execute-api.us-east-2.amazonaws.com'')
             (Some ''us-east-2'') rq (Url_path pq)) clock = Inl (er', touched) \<longrightarrow>
      fst (signRequest_custom_signer parse_url default_sign rq clock) = Some er') \<and>
   (fst (signRequest_custom_signer parse_url default_sign rq clock) = None \<longrightarrow>
      (\<exists>pu' signed. parse_url (url rq) = Inr pu' \<and>
         default_sign (earlier_options (Some ''xc2wojfn0c.execute-api.us-east-2.amazonaws.com'')
                  (Some ''us-east-2'') rq (Url_path pu')) clock = Inr signed \<and>
         headers (snd (signRequest_custom_signer parse_url default_sign rq clock))
           = opt_headers signed))"
proof -
  have n: "now w1 = now w" if "debug_logged b w = Inr w1" for b w1
    using that by (rule now_debug_logged)
  have new: "(url_parse (resolveTemplate (url rp) vars) = Inl err \<longrightarrow>
      signRequest url_parse aws4_sign e rp vars w = (Some err, rp, w)) \<and>
   (url_parse (resolveTemplate (url rp) vars) = Inr pu \<and>
    (signed_body rp vars = None \<or> unwritable w DEBUG_LOG = None) \<and>
    aws4_sign (signing_opts e rp (canonicalPath_of pu) (signed_body rp vars)) (signing_creds e) (now w)
      = Inl err' \<longrightarrow>
      fst (signRequest url_parse aws4_sign e rp vars w) = Some err' \<and>
      headers (fst (snd (signRequest url_parse aws4_sign e rp vars w))) = headers rp \<and>
      url (fst (snd (signRequest url_parse aws4_sign e rp vars w))) = url rp)"
    by (auto simp: signRequest_def Let_def debug_logged_def logToFile_def
        split: sum.splits option.splits if_splits)
  have log: "(url_parse (resolveTemplate (url rp) vars) = Inr pu \<and>
    signed_body rp vars = Some b \<and> debug_logged b w = Inl err'' \<longrightarrow>
      fst (signRequest url_parse aws4_sign e rp vars w) = Some err'' \<and>
      headers (fst (snd (signRequest url_parse aws4_sign e rp vars w))) = headers rp \<and>
      url (fst (snd (signRequest url_parse aws4_sign e rp vars w))) = url rp)"
    by (auto simp: signRequest_def Let_def)
  have ok: "(fst (signRequest url_parse aws4_sign e rp vars w) = None \<longrightarrow>
      (\<exists>pu' h. url_parse (resolveTemplate (url rp) vars) = Inr pu' \<and>
         aws4_sign (signing_opts e rp (canonicalPath_of pu') (signed_body rp vars)) (signing_creds e)
           (now w) = Inr h \<and>
         headers (fst (snd (signRequest url_parse aws4_sign e rp vars w))) = h))"
    by (auto simp: signRequest_def Let_def n split: sum.splits option.splits)
  have old: "(parse_url (url rq) = Inl er \<longrightarrow>
      signRequest_custom_signer parse_url default_sign rq clock = (Some er, rq)) \<and>
   (parse_url (url rq) = Inr pq \<and>
    default_sign (earlier_options (Some ''xc2wojfn0c.execute-api.us-east-2.amazonaws.com'')
             (Some ''us-east-2'') rq (Url_path pq)) clock = Inl (er', touched) \<longrightarrow>
      fst (signRequest_custom_signer parse_url default_sign rq clock) = Some er') \<and>
   (fst (signRequest_custom_signer parse_url default_sign rq clock) = None \<longrightarrow>
      (\<exists>pu' signed. parse_url (url rq) = Inr pu' \<and>
         default_sign (earlier_options (Some ''xc2wojfn0c.execute-api.us-east-2.amazonaws.com'')
                  (Some ''us-east-2'') rq (Url_path pu')) clock = Inr signed \<and>
         headers (snd (signRequest_custom_signer parse_url default_sign rq clock))
           = opt_headers signed))"
    by (auto simp: signRequest_custom_signer_def Let_def with_body_def
        split: sum.splits option.splits)
  from new log ok old show ?thesis by blast
qed

theorem signRequest_surfaces_failures_witness:
  "signRequest rejecting_url_parse recording_signer example_env example_request example_vars
     example_world = (Some (Thrown ''Invalid URL''), example_request, example_world) \<and>
   fst (signRequest relative_url_parse failing_signer example_env example_request example_vars
     example_world) = Some (Thrown ''signing failed'') \<and>
   headers (fst (snd (signRequest relative_url_parse failing_signer example_env example_request
     example_vars example_world))) = headers example_request \<and>
   url (fst (snd (signRequest relative_url_parse failing_signer example_env example_request
     example_vars example_world))) = url example_request \<and>
   fst (signRequest relative_url_parse recording_signer example_env example_request example_vars
     readonly_world) = Some (Thrown ''EACCES: permission denied'') \<and>
   headers (fst (snd (signRequest relative_url_parse recording_signer example_env example_request
     example_vars readonly_world))) = headers example_request \<and>
   signRequest_custom_signer rejecting_url_parse failing_default_signer example_request
     ''2024-01-01T00:00:00.000Z'' = (Some (Thrown ''Invalid URL''), example_request) \<and>
   fst (signRequest_custom_signer relative_url_parse failing_default_signer example_request
     ''2024-01-01T00:00:00.000Z'') = Some (Thrown ''signing failed'')"
proof -
  let ?pu = "\<lparr>protocol = None, u_host = None, pathname = Some ''/items/42'',
             search = Some ''?v=1'', hash = None\<rparr>"
  have a: "rejecting_url_parse (resolveTemplate (url example_request) example_vars)
      = Inl (Thrown ''Invalid URL'')"
    by (simp add: rejecting_url_parse_def)
  have b: "relative_url_parse (resolveTemplate (url example_request) example_vars) = Inr ?pu"
    by (simp add: example_request_def example_url example_parse)
  have c: "rejecting_url_parse (url example_request) = Inl (Thrown ''Invalid URL'')"
    by (simp add: rejecting_url_parse_def)
  obtain pu where d: "relative_url_parse (url example_request) = Inr pu"
    by (simp add: relative_url_parse_def Let_def)
  have s: "signed_body example_request example_vars
      = Some (resolveTemplate (JSON_stringify (JObj [(''id'', JStr ''{{name}}'')])) example_vars)"
    by (simp add: signed_body_def example_request_def)
  have nonempty: "resolveTemplate (JSON_stringify (JObj [(''id'', JStr ''{{name}}'')])) example_vars \<noteq> []"
    unfolding example_vars_def by code_simp
  have l: "debug_logged (resolveTemplate (JSON_stringify (JObj [(''id'', JStr ''{{name}}'')])) example_vars)
      readonly_world = Inl (Thrown ''EACCES: permission denied'')"
    using nonempty by (simp add: debug_logged_def logToFile_def readonly_world_def)
  have w: "unwritable example_world DEBUG_LOG = None" by (simp add: example_world_def)
  show ?thesis
    using signRequest_surfaces_failures
      [where url_parse = rejecting_url_parse and rp = example_request and vars = example_vars
         and err = "Thrown ''Invalid URL''" and aws4_sign = recording_signer and e = example_env
         and w = example_world and parse_url = rejecting_url_parse and rq = example_request
         and er = "Thrown ''Invalid URL''" and default_sign = failing_default_signer
         and clock = "''2024-01-01T00:00:00.000Z''"]
      signRequest_surfaces_failures
      [where url_parse = relative_url_parse and rp = example_request and vars = example_vars
         and aws4_sign = failing_signer and e = example_env and w = example_world
         and err' = "Thrown ''signing failed''" and pu = ?pu
         and parse_url = relative_url_parse and rq = example_request
         and default_sign = failing_default_signer and clock = "''2024-01-01T00:00:00.000Z''"
         and pq = pu and er' = "Thrown ''signing failed''"
         and touched = "headers example_request"]
      signRequest_surfaces_failures
      [where url_parse = relative_url_parse and rp = example_request and vars = example_vars
         and aws4_sign = recording_signer and e = example_env and w = readonly_world
         and pu = ?pu and err'' = "Thrown ''EACCES: permission denied''"
         and b = "resolveTemplate (JSON_stringify (JObj [(''id'', JStr ''{{name}}'')])) example_vars"]
      a b c d s l w
    by (simp add: failing_signer_def failing_default_signer_def earlier_options_def)
qed


text \<open>
  After a successful \<^verbatim>\<open>signRequest\<close> the descriptor's URL is the text
  \<^verbatim>\<open>parsedUrl.pathname + (parsedUrl.search || '')\<close> of the parsed resolved URL, which
  for a URL with a pathname is the pathname followed by the search; and a descriptor that
  had a structured \<^verbatim>\<open>json\<close> payload has lost the \<^verbatim>\<open>json\<close> property and carries
  the resolved serialized text as its body.
\<close>

lemma signRequest_success_descriptor:
  assumes "fst (signRequest url_parse aws4_sign e rp vars w) = None"
  shows "\<exists>pu. url_parse (resolveTemplate (url rp) vars) = Inr pu \<and>
           url (fst (snd (signRequest url_parse aws4_sign e rp vars w))) = canonicalPath_of pu \<and>
           (\<forall>p. pathname pu = Some p \<longrightarrow>
              url (fst (snd (signRequest url_parse aws4_sign e rp vars w)))
                = p @ (case search pu of None \<Rightarrow> [] | Some q \<Rightarrow> q)) \<and>
           (\<forall>j. json rp = Some j \<and> structured j \<longrightarrow>
              json (fst (snd (signRequest url_parse aws4_sign e rp vars w))) = None \<and>
              body (fst (snd (signRequest url_parse aws4_sign e rp vars w)))
                = Some (BodyText (resolveTemplate (JSON_stringify j) vars)))"
proof (cases "url_parse (resolveTemplate (url rp) vars)")
  case (Inl err)
  with assms show ?thesis by (simp add: signRequest_def)
next
  case (Inr pu)
  have st: "\<And>j. structured j \<Longrightarrow> truthy j"
    by (case_tac j) simp_all
  from assms Inr show ?thesis
    by (auto simp: signRequest_def Let_def signed_body_def canonicalPath_of_def st
        split: sum.splits option.splits)
qed

text \<open>A request whose URL is a query without a path.\<close>

definition query_request :: requestParams where
  "query_request =
     \<lparr>url = ''?x=1'', http_method = Some ''GET'', headers = [], json = None, body = None\<rparr>"

text \<open>
  Claim C10.  For the URL \<^verbatim>\<open>?x=1\<close>, \<^verbatim>\<open>url.parse\<close> gives a \<^verbatim>\<open>null\<close> pathname and
  the search \<^verbatim>\<open>?x=1\<close>.  \<^verbatim>\<open>signRequest\<close> succeeds, and the path it has signed and
  written to the descriptor's URL is \<^verbatim>\<open>null?x=1\<close>: the concatenation
  \<^verbatim>\<open>parsedUrl.pathname + (parsedUrl.search || '')\<close> turns the missing pathname into
  the text \<^verbatim>\<open>null\<close>.  The path-plus-query of this URL is \<^verbatim>\<open>?x=1\<close>, as
  \<^verbatim>\<open>url.parse(...).path\<close>, which the earlier versions sign, has it.
\<close>

theorem signRequest_null_pathname:
  "relative_url_parse (resolveTemplate (url query_request) Map.empty)
     = Inr \<lparr>protocol = None, u_host = None, pathname = None, search = Some ''?x=1'',
            hash = None\<rparr> \<and>
   fst (signRequest relative_url_parse recording_signer example_env query_request Map.empty
          example_world) = None \<and>
   url (fst (snd (signRequest relative_url_parse recording_signer example_env query_request
          Map.empty example_world))) = ''null?x=1'' \<and>
   map_of (headers (fst (snd (signRequest relative_url_parse recording_signer example_env
          query_request Map.empty example_world)))) ''Signed-Path'' = Some (Some ''null?x=1'') \<and>
   Url_path \<lparr>protocol = None, u_host = None, pathname = None, search = Some ''?x=1'',
             hash = None\<rparr> = Some ''?x=1''"
  by code_simp


section \<open>Properties of \<^verbatim>\<open>loadCsvData\<close> and \<^verbatim>\<open>afterResponse\<close>\<close>

text \<open>
  Claim C8, as amended.  When the file reads and parses and the line for the debug log
  can be appended, \<^verbatim>\<open>loadCsvData\<close> returns the records that \<^verbatim>\<open>parse\<close> gives for
  the file's content, in their order, and leaves the error log alone.  When the file
  cannot be read or its content is malformed (either call throws), and also when the file
  is well-formed but the line for the debug log cannot be appended, it returns the empty
  sequence and appends one timestamped line with the error's message to the error log.
  It throws into its caller in one case only: when that append to the error log fails;
  what it throws then is the error of the append.
\<close>

theorem loadCsvData_records_or_empty:
  "(files w filePath = Inr csvContent \<and> parse csvContent = Inr records
      \<and> unwritable w DEBUG_LOG = None \<longrightarrow>
      loadCsvData parse filePath w =
        Inr (records,
             w\<lparr>logs := (logs w)(DEBUG_LOG := logs w DEBUG_LOG
                @ [''['' @ now w @ ''] '' @ ''Loaded '' @ show_nat (length records)
                   @ '' records from CSV: '' @ filePath @ [CHR 0x0A]])\<rparr>)) \<and>
   ((files w filePath = Inl err \<or>
     (files w filePath = Inr csvContent \<and> parse csvContent = Inl err) \<or>
     (files w filePath = Inr csvContent \<and> parse csvContent = Inr records
        \<and> unwritable w DEBUG_LOG = Some err))
    \<and> unwritable w ERROR_LOG = None \<longrightarrow>
      loadCsvData parse filePath w =
        Inr ([],
             w\<lparr>logs := (logs w)(ERROR_LOG := logs w ERROR_LOG
                @ [''['' @ now w @ ''] '' @ ''CSV Load Failed for '' @ filePath @ '': ''
                   @ message err @ [CHR 0x0A]])\<rparr>)) \<and>
   ((files w filePath = Inl err \<or>
     (files w filePath = Inr csvContent \<and> parse csvContent = Inl err) \<or>
     (files w filePath = Inr csvContent \<and> parse csvContent = Inr records
        \<and> unwritable w DEBUG_LOG = Some err))
    \<and> unwritable w ERROR_LOG = Some thrown \<longrightarrow>
      loadCsvData parse filePath w = Inl thrown) \<and>
   (unwritable w ERROR_LOG = None \<longrightarrow> (\<exists>rows w'. loadCsvData parse filePath w = Inr (rows, w'))) \<and>
   (loadCsvData parse filePath w = Inl thrown' \<longrightarrow> unwritable w ERROR_LOG = Some thrown')"
  by (auto simp: loadCsvData_def logToFile_def split: sum.splits option.splits)

text \<open>A readable file, a malformed one, and a parser test double that knows the first.\<close>

definition example_csv_parse :: "string \<Rightarrow> error + row list" where
  "example_csv_parse content =
     (if content = ''id,name'' @ [CHR 0x0A] @ ''1,ann'' @ [CHR 0x0A] @ ''2,bob'' @ [CHR 0x0A]
      then Inr [[(''id'', ''1''), (''name'', ''ann'')], [(''id'', ''2''), (''name'', ''bob'')]]
      else Inl (Thrown ''Invalid Record Length''))"

definition example_files :: "string \<Rightarrow> error + string" where
  "example_files p =
     (if p = ''./data/users.csv''
      then Inr (''id,name'' @ [CHR 0x0A] @ ''1,ann'' @ [CHR 0x0A] @ ''2,bob'' @ [CHR 0x0A])
      else if p = ''./data/broken.csv'' then Inr (''id,name'' @ [CHR 0x0A] @ ''1'' @ [CHR 0x0A])
      else Inl (Thrown ''ENOENT: no such file or directory''))"

theorem loadCsvData_records_or_empty_witness:
  "loadCsvData example_csv_parse ''./data/users.csv'' (example_world\<lparr>files := example_files\<rparr>)
     = Inr ([[(''id'', ''1''), (''name'', ''ann'')], [(''id'', ''2''), (''name'', ''bob'')]],
            example_world\<lparr>files := example_files,
              logs := (logs example_world)(DEBUG_LOG :=
                [''[2024-01-01T00:00:00.000Z] Loaded 2 records from CSV: ./data/users.csv''
                 @ [CHR 0x0A]])\<rparr>) \<and>
   loadCsvData example_csv_parse ''./data/broken.csv'' (example_world\<lparr>files := example_files\<rparr>)
     = Inr ([],
            example_world\<lparr>files := example_files,
              logs := (logs example_world)(ERROR_LOG :=
                [''[2024-01-01T00:00:00.000Z] CSV Load Failed for ./data/broken.csv: Invalid Record Length''
                 @ [CHR 0x0A]])\<rparr>) \<and>
   loadCsvData example_csv_parse ''./missing.csv'' (example_world\<lparr>files := example_files\<rparr>)
     = Inr ([],
            example_world\<lparr>files := example_files,
              logs := (logs example_world)(ERROR_LOG :=
                [''[2024-01-01T00:00:00.000Z] CSV Load Failed for ./missing.csv: ENOENT: no such file or directory''
                 @ [CHR 0x0A]])\<rparr>)"
proof -
  let ?w = "example_world\<lparr>files := example_files\<rparr>"
  let ?users = "''id,name'' @ [CHR 0x0A] @ ''1,ann'' @ [CHR 0x0A] @ ''2,bob'' @ [CHR 0x0A]"
  let ?rows = "[[(''id'', ''1''), (''name'', ''ann'')], [(''id'', ''2''), (''name'', ''bob'')]]"
  have "show_nat 2 = ''2''" by (simp add: show_nat.simps [of 2] digit_def)
  then have two: "show_nat (length ?rows) = ''2''" by (simp add: numeral_2_eq_2)
  have f1: "files ?w ''./data/users.csv'' = Inr ?users" by (simp add: example_files_def)
  have p1: "example_csv_parse ?users = Inr ?rows" by (simp add: example_csv_parse_def)
  have f2: "files ?w ''./data/broken.csv'' = Inr (''id,name'' @ [CHR 0x0A] @ ''1'' @ [CHR 0x0A])"
    by (simp add: example_files_def)
  have p2: "example_csv_parse (''id,name'' @ [CHR 0x0A] @ ''1'' @ [CHR 0x0A])
      = Inl (Thrown ''Invalid Record Length'')"
    by (simp add: example_csv_parse_def)
  have f3: "files ?w ''./missing.csv'' = Inl (Thrown ''ENOENT: no such file or directory'')"
    by (simp add: example_files_def)
  have u: "unwritable ?w DEBUG_LOG = None" "unwritable ?w ERROR_LOG = None"
    by (simp_all add: example_world_def)
  have 1: "loadCsvData example_csv_parse ''./data/users.csv'' ?w =
        Inr (?rows,
             ?w\<lparr>logs := (logs ?w)(DEBUG_LOG := logs ?w DEBUG_LOG
                @ [''['' @ now ?w @ ''] '' @ ''Loaded '' @ show_nat (length ?rows)
                   @ '' records from CSV: '' @ ''./data/users.csv'' @ [CHR 0x0A]])\<rparr>)"
    using loadCsvData_records_or_empty
      [where w = ?w and filePath = "''./data/users.csv''" and parse = example_csv_parse
         and csvContent = ?users and records = ?rows] f1 p1 u
    by blast
  have 2: "loadCsvData example_csv_parse ''./data/broken.csv'' ?w =
        Inr ([],
             ?w\<lparr>logs := (logs ?w)(ERROR_LOG := logs ?w ERROR_LOG
                @ [''['' @ now ?w @ ''] '' @ ''CSV Load Failed for '' @ ''./data/broken.csv'' @ '': ''
                   @ message (Thrown ''Invalid Record Length'') @ [CHR 0x0A]])\<rparr>)"
    using loadCsvData_records_or_empty
      [where w = ?w and filePath = "''./data/broken.csv''" and parse = example_csv_parse
         and csvContent = "''id,name'' @ [CHR 0x0A] @ ''1'' @ [CHR 0x0A]"
         and err = "Thrown ''Invalid Record Length''"] f2 p2 u
    by blast
  have 3: "loadCsvData example_csv_parse ''./missing.csv'' ?w =
        Inr ([],
             ?w\<lparr>logs := (logs ?w)(ERROR_LOG := logs ?w ERROR_LOG
                @ [''['' @ now ?w @ ''] '' @ ''CSV Load Failed for '' @ ''./missing.csv'' @ '': ''
                   @ message (Thrown ''ENOENT: no such file or directory'') @ [CHR 0x0A]])\<rparr>)"
    using loadCsvData_records_or_empty
      [where w = ?w and filePath = "''./missing.csv''" and parse = example_csv_parse
         and err = "Thrown ''ENOENT: no such file or directory''"] f3 u
    by blast
  show ?thesis unfolding 1 2 3 two by (simp add: example_world_def)
qed
text \<open>A world in which only the debug log cannot be appended to.\<close>

definition debug_readonly_world :: world where
  "debug_readonly_world =
     example_world\<lparr>unwritable :=
       (\<lambda>file. if file = DEBUG_LOG then Some (Thrown ''EACCES: permission denied'') else None)\<rparr>"

text \<open>
  The claim as stated fails.  When the log files cannot be appended to, the append in the
  \<^verbatim>\<open>catch\<close> block throws, and \<^verbatim>\<open>loadCsvData\<close> throws that error into its caller
  for a file that cannot be read.  And when only the debug log cannot be appended to, a
  well-formed file gives the empty sequence, not its records.
\<close>

theorem loadCsvData_counterexample:
  "loadCsvData example_csv_parse ''./missing.csv'' (readonly_world\<lparr>files := example_files\<rparr>)
     = Inl (Thrown ''EACCES: permission denied'') \<and>
   example_csv_parse (''id,name'' @ [CHR 0x0A] @ ''1,ann'' @ [CHR 0x0A] @ ''2,bob'' @ [CHR 0x0A])
     = Inr [[(''id'', ''1''), (''name'', ''ann'')], [(''id'', ''2''), (''name'', ''bob'')]] \<and>
   map_sum id fst
     (loadCsvData example_csv_parse ''./data/users.csv''
        (debug_readonly_world\<lparr>files := example_files\<rparr>)) = Inr []"
  by (simp add: loadCsvData_def logToFile_def readonly_world_def debug_readonly_world_def
      example_world_def example_files_def example_csv_parse_def)


text \<open>
  Claim C9, as amended.  \<^verbatim>\<open>afterResponse\<close> first turns the two bodies into text; if
  \<^verbatim>\<open>JSON.stringify\<close> throws on one of them, the hook throws.  Otherwise, for every
  response: with \<^verbatim>\<open>RESPONSE_LOG_BODY_ENABLED\<close> unset it writes nothing and calls
  \<^verbatim>\<open>next()\<close>; with the flag set it appends exactly one timestamped line, to the error
  log for a status of 400 or more (there \<^verbatim>\<open>DEBUG_LOG_BODY_ENABLED\<close> adds the request
  body to the line), to the response log for a status from 200 to 399, to the debug log
  for a status below 200, leaves the other logs as they were and calls \<^verbatim>\<open>next()\<close>;
  if that append fails, the hook throws the error of the append and writes nothing.  In
  no case does it pass an error to \<^verbatim>\<open>next\<close>.
\<close>

theorem afterResponse_routes_by_band:
  "(responseBodyText resp = Inl err \<longrightarrow> afterResponse e rp resp w = (Inl err, w)) \<and>
   (responseBodyText resp = Inr rt \<and> requestBodyText rp = Inl err \<longrightarrow>
      afterResponse e rp resp w = (Inl err, w)) \<and>
   (responseBodyText (Some r) = Inr rt \<and> requestBodyText rp = Inr qt \<longrightarrow>
      (let line = show_nat (statusCode r) @ '' '' @ js_text (http_method rp) ''undefined''
                  @ '' '' @ url rp @ '' | Response Snippet: '' @ snippet rt;
           dest = (if 400 \<le> statusCode r then ERROR_LOG
                   else if 200 \<le> statusCode r then RESPONSE_LOG else DEBUG_LOG);
           entry = (if 400 \<le> statusCode r
                   then line @ (if DEBUG_LOG_BODY_ENABLED e
                                then [CHR 0x0A] @ ''REQUEST BODY: '' @ snippet qt else [])
                   else if 200 \<le> statusCode r then line
                   else ''[Other Status] '' @ line)
       in afterResponse e rp (Some r) w =
            (if \<not> RESPONSE_LOG_BODY_ENABLED e then (Inr None, w)
             else case unwritable w dest of
                    Some thrown \<Rightarrow> (Inl thrown, w)
                  | None \<Rightarrow>
                      (Inr None,
                       w\<lparr>logs := (logs w)(dest := logs w dest
                            @ [''['' @ now w @ ''] '' @ entry @ [CHR 0x0A]])\<rparr>)))) \<and>
   fst (afterResponse e rp resp w) \<noteq> Inr (Some err')"
proof (intro conjI impI)
  assume "responseBodyText resp = Inl err"
  then show "afterResponse e rp resp w = (Inl err, w)"
    by (simp add: afterResponse_def)
next
  assume "responseBodyText resp = Inr rt \<and> requestBodyText rp = Inl err"
  then show "afterResponse e rp resp w = (Inl err, w)"
    by (simp add: afterResponse_def)
next
  assume "responseBodyText (Some r) = Inr rt \<and> requestBodyText rp = Inr qt"
  then show "let line = show_nat (statusCode r) @ '' '' @ js_text (http_method rp) ''undefined''
                  @ '' '' @ url rp @ '' | Response Snippet: '' @ snippet rt;
           dest = (if 400 \<le> statusCode r then ERROR_LOG
                   else if 200 \<le> statusCode r then RESPONSE_LOG else DEBUG_LOG);
           entry = (if 400 \<le> statusCode r
                   then line @ (if DEBUG_LOG_BODY_ENABLED e
                                then [CHR 0x0A] @ ''REQUEST BODY: '' @ snippet qt else [])
                   else if 200 \<le> statusCode r then line
                   else ''[Other Status] '' @ line)
       in afterResponse e rp (Some r) w =
            (if \<not> RESPONSE_LOG_BODY_ENABLED e then (Inr None, w)
             else case unwritable w dest of
                    Some thrown \<Rightarrow> (Inl thrown, w)
                  | None \<Rightarrow>
                      (Inr None,
                       w\<lparr>logs := (logs w)(dest := logs w dest
                            @ [''['' @ now w @ ''] '' @ entry @ [CHR 0x0A]])\<rparr>))"
    by (simp add: afterResponse_def logged_then_next_def logToFile_def Let_def
        split: option.splits)
next
  show "fst (afterResponse e rp resp w) \<noteq> Inr (Some err')"
    by (simp add: afterResponse_def logged_then_next_def Let_def
        split: sum.splits option.splits)
qed

text \<open>A response and a request as the hook may see them.\<close>

definition not_found :: response where
  "not_found = \<lparr>statusCode = 404, r_body = Some (Text ''not found'')\<rparr>"

definition sent_request :: requestParams where
  "sent_request =
     \<lparr>url = ''/items/42'', http_method = Some ''POST'', headers = [], json = None,
      body = Some (BodyText ''{}'')\<rparr>"

theorem afterResponse_routes_by_band_witness:
  "afterResponse (example_env\<lparr>DEBUG_LOG_BODY_ENABLED := True\<rparr>) sent_request (Some not_found)
     example_world
   = (Inr None,
      example_world\<lparr>logs := (logs example_world)
        (ERROR_LOG :=
           [''[2024-01-01T00:00:00.000Z] 404 POST /items/42 | Response Snippet: not found''
            @ [CHR 0x0A] @ ''REQUEST BODY: {}'' @ [CHR 0x0A]])\<rparr>) \<and>
   afterResponse example_env sent_request (Some (not_found\<lparr>statusCode := 200\<rparr>)) example_world
   = (Inr None,
      example_world\<lparr>logs := (logs example_world)
        (RESPONSE_LOG :=
           [''[2024-01-01T00:00:00.000Z] 200 POST /items/42 | Response Snippet: not found''
            @ [CHR 0x0A]])\<rparr>) \<and>
   afterResponse example_env sent_request (Some (not_found\<lparr>statusCode := 101\<rparr>)) example_world
   = (Inr None,
      example_world\<lparr>logs := (logs example_world)
        (DEBUG_LOG :=
           [''[2024-01-01T00:00:00.000Z] [Other Status] 101 POST /items/42 | Response Snippet: not found''
            @ [CHR 0x0A]])\<rparr>) \<and>
   afterResponse (example_env\<lparr>RESPONSE_LOG_BODY_ENABLED := False\<rparr>) sent_request (Some not_found)
     example_world = (Inr None, example_world) \<and>
   afterResponse example_env sent_request (Some not_found) readonly_world
   = (Inl (Thrown ''EACCES: permission denied''), readonly_world) \<and>
   afterResponse example_env sent_request
     (Some \<lparr>statusCode = 200, r_body = Some (Unserializable (Thrown ''Converting circular structure to JSON''))\<rparr>)
     example_world
   = (Inl (Thrown ''Converting circular structure to JSON''), example_world)"
proof -
  have n: "show_nat 404 = ''404''" "show_nat 200 = ''200''" "show_nat 101 = ''101''"
    by code_simp+
  have rt: "responseBodyText (Some (not_found\<lparr>statusCode := c\<rparr>)) = Inr ''not found''" for c
    by (simp add: responseBodyText_def not_found_def)
  have rt': "responseBodyText (Some not_found) = Inr ''not found''"
    by (simp add: responseBodyText_def not_found_def)
  have qt: "requestBodyText sent_request = Inr ''{}''"
    by (simp add: requestBodyText_def sent_request_def)
  have bad: "responseBodyText
      (Some \<lparr>statusCode = 200, r_body = Some (Unserializable (Thrown ''Converting circular structure to JSON''))\<rparr>)
      = Inl (Thrown ''Converting circular structure to JSON'')"
    by (simp add: responseBodyText_def)
  note t = afterResponse_routes_by_band [where rp = sent_request and rt = "''not found''" and qt = "''{}''"]
  show ?thesis
    using t [where e = "example_env\<lparr>DEBUG_LOG_BODY_ENABLED := True\<rparr>" and r = not_found
               and w = example_world]
      t [where e = example_env and r = "not_found\<lparr>statusCode := 200\<rparr>" and w = example_world]
      t [where e = example_env and r = "not_found\<lparr>statusCode := 101\<rparr>" and w = example_world]
      t [where e = "example_env\<lparr>RESPONSE_LOG_BODY_ENABLED := False\<rparr>" and r = not_found
               and w = example_world]
      t [where e = example_env and r = not_found and w = readonly_world]
      t [where e = example_env and w = example_world
           and resp = "Some \<lparr>statusCode = 200, r_body = Some (Unserializable (Thrown ''Converting circular structure to JSON''))\<rparr>"
           and err = "Thrown ''Converting circular structure to JSON''"]
      rt rt' qt bad n
    by (simp add: Let_def example_env_def example_world_def readonly_world_def not_found_def
        sent_request_def js_text_def snippet_def)
qed

text \<open>
  The claim as stated fails.  A status of 600 is outside 4xx/5xx and outside 2xx/3xx, and
  its line goes to the error log, not to the debug log.  And for a status of 404 the hook
  throws when the error log cannot be appended to.
\<close>

theorem afterResponse_band_counterexample:
  "logs (snd (afterResponse example_env sent_request (Some (not_found\<lparr>statusCode := 600\<rparr>))
          example_world)) DEBUG_LOG = [] \<and>
   logs (snd (afterResponse example_env sent_request (Some (not_found\<lparr>statusCode := 600\<rparr>))
          example_world)) ERROR_LOG
     = [''[2024-01-01T00:00:00.000Z] 600 POST /items/42 | Response Snippet: not found''
        @ [CHR 0x0A]] \<and>
   fst (afterResponse example_env sent_request (Some not_found) readonly_world)
     = Inl (Thrown ''EACCES: permission denied'')"
  by code_simp


section \<open>The signer, from the specification\<close>

text \<open>
  Modelled from the spec: the two hash primitives of the signer, which the spec names
  (SHA-256 and a keyed hash) and the repository takes from the library
  \<^verbatim>\<open>aws4\<close>; they are parameters here, both on byte strings.
\<close>

record crypto =
  sha256 :: "string \<Rightarrow> string"
  hmac :: "string \<Rightarrow> string \<Rightarrow> string"

text \<open>
  Modelled from the spec: the RequestDescriptor of section 3 as the canonicalizer reads
  it (method, host, path, the query as ordered pairs, the headers, an optional body);
  the repository has no such type, its signer being the library
  \<^verbatim>\<open>aws4\<close>.
\<close>

record descriptor =
  d_method :: string
  d_host :: string
  d_path :: string
  d_query :: "(string \<times> string) list"
  d_headers :: "(string \<times> string) list"
  d_body :: "string option"

text \<open>
  Modelled from the spec: the SigningScope of section 3 (date, region, service), not
  present in the repository.
\<close>

record scope =
  date :: string
  s_region :: string
  s_service :: string

text \<open>
  Modelled from the spec: the letters that step 1 and step 4 of the canonicalizer
  (section 4.2) convert between; no such code is in the repository.
\<close>

definition upper_case :: string where
  "upper_case = ''ABCDEFGHIJKLMNOPQRSTUVWXYZ''"

definition lower_case :: string where
  "lower_case = ''abcdefghijklmnopqrstuvwxyz''"

text \<open>
  Modelled from the spec: lower-casing of a header name (section 4.2, step 4), missing
  from the repository.
\<close>

definition to_lower :: "char \<Rightarrow> char" where
  "to_lower c = (case map_of (zip upper_case lower_case) c of Some l \<Rightarrow> l | None \<Rightarrow> c)"

text \<open>
  Modelled from the spec: upper-casing of the method (section 4.2, step 1), missing from
  the repository.
\<close>

definition to_upper :: "char \<Rightarrow> char" where
  "to_upper c = (case map_of (zip lower_case upper_case) c of Some u \<Rightarrow> u | None \<Rightarrow> c)"

text \<open>
  Modelled from the spec: the unreserved characters of RFC 3986 (section 4.2, step 2),
  missing from the repository.
\<close>

definition unreserved :: "char \<Rightarrow> bool" where
  "unreserved c \<longleftrightarrow> c \<in> set (upper_case @ lower_case @ ''0123456789'' @ ''-._~'')"

text \<open>
  Modelled from the spec: an upper-case hexadecimal digit of a percent escape (section
  4.2, step 2), missing from the repository.
\<close>

definition HEX_digit :: "nat \<Rightarrow> char" where
  "HEX_digit d = ''0123456789ABCDEF'' ! d"

text \<open>
  Modelled from the spec: percent-encoding by the unreserved-character rule (section
  4.2, steps 2 and 3), missing from the repository.
\<close>

definition pct_encode :: "string \<Rightarrow> string" where
  "pct_encode s =
     concat (map (\<lambda>c. if unreserved c then [c]
                        else [CHR ''%'', HEX_digit (of_char c div 16), HEX_digit (of_char c mod 16)]) s)"

text \<open>
  Modelled from the spec: splitting a path into segments and a query into pairs (section
  4.2, step 2, and the pipeline of section 4.4), missing from the repository.
\<close>

fun split_on :: "char \<Rightarrow> string \<Rightarrow> string list" where
  "split_on d [] = [[]]"
| "split_on d (c # cs) =
     (if c = d then [] # split_on d cs
      else (case split_on d cs of [] \<Rightarrow> [[c]] | x # xs \<Rightarrow> (c # x) # xs))"

text \<open>
  Modelled from the spec: the canonical URI (section 4.2, step 2): every segment
  percent-encoded, the empty path is a slash. The repository leaves this to
  \<^verbatim>\<open>aws4\<close>.
\<close>

definition canonical_uri :: "string \<Rightarrow> string" where
  "canonical_uri p = (if p = [] then ''/'' else intercalate ''/'' (map pct_encode (split_on (CHR ''/'') p)))"

text \<open>
  Modelled from the spec: the order by byte value used for sorting (section 4.2, steps 3
  and 4), missing from the repository.
\<close>

fun str_le :: "string \<Rightarrow> string \<Rightarrow> bool" where
  "str_le [] ys = True"
| "str_le (x # xs) [] = False"
| "str_le (x # xs) (y # ys) = ((of_char x :: nat) < of_char y \<or> (x = y \<and> str_le xs ys))"

text \<open>
  Modelled from the spec: sorting (section 4.2, steps 3 to 5), here a stable insertion
  sort; missing from the repository.
\<close>

fun insert_by :: "('a \<Rightarrow> 'a \<Rightarrow> bool) \<Rightarrow> 'a \<Rightarrow> 'a list \<Rightarrow> 'a list" where
  "insert_by le x [] = [x]"
| "insert_by le x (y # ys) = (if le x y then x # y # ys else y # insert_by le x ys)"

definition sort_by :: "('a \<Rightarrow> 'a \<Rightarrow> bool) \<Rightarrow> 'a list \<Rightarrow> 'a list" where
  "sort_by le xs = foldr (insert_by le) xs []"

text \<open>
  Modelled from the spec: query pairs are ordered by key, then by value (section 4.2,
  step 3); missing from the repository.
\<close>

definition pair_le :: "string \<times> string \<Rightarrow> string \<times> string \<Rightarrow> bool" where
  "pair_le p q \<longleftrightarrow> (fst p \<noteq> fst q \<and> str_le (fst p) (fst q)) \<or> (fst p = fst q \<and> str_le (snd p) (snd q))"

text \<open>
  Modelled from the spec: header entries are ordered by name (section 4.2, step 4);
  missing from the repository.
\<close>

definition name_le :: "string \<times> string \<Rightarrow> string \<times> string \<Rightarrow> bool" where
  "name_le p q \<longleftrightarrow> str_le (fst p) (fst q)"

text \<open>
  Modelled from the spec: the canonical query string (section 4.2, step 3), which the
  repository leaves to \<^verbatim>\<open>aws4\<close>.
\<close>

definition canonical_query :: "(string \<times> string) list \<Rightarrow> string" where
  "canonical_query q =
     intercalate ''&'' (map (\<lambda>(k, v). pct_encode k @ ''='' @ pct_encode v) (sort_by pair_le q))"

text \<open>
  Modelled from the spec: runs of white space in a header value collapse to one space,
  except inside a quoted part (section 4.2, step 4); missing from the repository.
\<close>

function collapse :: "bool \<Rightarrow> string \<Rightarrow> string" where
  "collapse quoted [] = []"
| "collapse quoted (c # cs) =
     (if c = CHR 0x22 then c # collapse (\<not> quoted) cs
      else if \<not> quoted \<and> is_space c then CHR '' '' # collapse quoted (dropWhile is_space cs)
      else c # collapse quoted cs)"
  by pat_completeness auto
termination
  by (relation "measure (\<lambda>(q, s). length s)") (auto simp: le_imp_less_Suc length_dropWhile_le)

text \<open>
  Modelled from the spec: the canonical form of a header value (section 4.2, step 4):
  trimmed, inner white space collapsed; missing from the repository.
\<close>

definition normalize_value :: "string \<Rightarrow> string" where
  "normalize_value v = collapse False (trim v)"

text \<open>
  Modelled from the spec: the header entries of the canonical request (section 4.2, step
  4): names lower-cased, values normalized, sorted by name; missing from the repository.
\<close>

definition canonical_entries :: "(string \<times> string) list \<Rightarrow> (string \<times> string) list" where
  "canonical_entries hs = sort_by name_le (map (\<lambda>(n, v). (map to_lower n, normalize_value v)) hs)"

text \<open>
  Modelled from the spec: the canonical headers, one
  \<^verbatim>\<open>name:value\<close> line per entry (section 4.2, step 4); missing
  from the repository.
\<close>

definition canonical_headers :: "(string \<times> string) list \<Rightarrow> string" where
  "canonical_headers hs = concat (map (\<lambda>(n, v). n @ '':'' @ v @ [CHR 0x0A]) (canonical_entries hs))"

text \<open>
  Modelled from the spec: the signed-headers list (section 4.2, step 5); missing from
  the repository.
\<close>

definition signed_headers :: "(string \<times> string) list \<Rightarrow> string" where
  "signed_headers hs = intercalate '';'' (map fst (canonical_entries hs))"

text \<open>
  Modelled from the spec: lower-case hexadecimal encoding of a digest (section 4.2, step
  6, and section 4.3); missing from the repository.
\<close>

definition hex :: "string \<Rightarrow> string" where
  "hex s = concat (map (\<lambda>c. [hex_digit (of_char c div 16), hex_digit (of_char c mod 16)]) s)"

text \<open>
  Modelled from the spec: the payload hash (section 4.2, step 6): the hash of the body,
  of the empty byte sequence when there is none; missing from the repository.
\<close>

definition payload_hash :: "crypto \<Rightarrow> string option \<Rightarrow> string" where
  "payload_hash cr b = hex (sha256 cr (case b of None \<Rightarrow> [] | Some bytes \<Rightarrow> bytes))"

text \<open>
  Modelled from the spec: the credential scope (section 4.2, step 8, and the glossary);
  missing from the repository.
\<close>

definition credential_scope :: "scope \<Rightarrow> string" where
  "credential_scope sc = date sc @ ''/'' @ s_region sc @ ''/'' @ s_service sc @ ''/aws4_request''"

text \<open>
  Modelled from the spec: the canonical request (section 4.2, step 7), which the
  repository leaves to \<^verbatim>\<open>aws4\<close>.
\<close>

definition canonical_request :: "crypto \<Rightarrow> descriptor \<Rightarrow> string" where
  "canonical_request cr d =
     map to_upper (d_method d) @ [CHR 0x0A]
     @ canonical_uri (d_path d) @ [CHR 0x0A]
     @ canonical_query (d_query d) @ [CHR 0x0A]
     @ canonical_headers (d_headers d) @ [CHR 0x0A]
     @ signed_headers (d_headers d) @ [CHR 0x0A]
     @ payload_hash cr (d_body d)"

text \<open>
  Modelled from the spec: the string to sign (section 4.2, step 8), which the repository
  leaves to \<^verbatim>\<open>aws4\<close>.
\<close>

definition string_to_sign :: "crypto \<Rightarrow> string \<Rightarrow> scope \<Rightarrow> string \<Rightarrow> string" where
  "string_to_sign cr timestamp sc canonicalRequest =
     ''AWS4-HMAC-SHA256'' @ [CHR 0x0A] @ timestamp @ [CHR 0x0A] @ credential_scope sc @ [CHR 0x0A]
     @ hex (sha256 cr canonicalRequest)"

text \<open>
  Modelled from the spec: the contract \<^verbatim>\<open>canonicalize(descriptor,
  scope)\<close> of section 4.2, with the timestamp it writes into the string to sign;
  the repository has no canonicalizer of its own.
\<close>

definition canonicalize :: "crypto \<Rightarrow> descriptor \<Rightarrow> scope \<Rightarrow> string \<Rightarrow> string \<times> string" where
  "canonicalize cr d sc timestamp =
     (canonical_request cr d, string_to_sign cr timestamp sc (canonical_request cr d))"

text \<open>
  Modelled from the spec: the derivation of the signing key (section 4.3): the chain of
  keyed hashes over date, region, service and the closing literal; missing from the
  repository.
\<close>

definition signing_key :: "crypto \<Rightarrow> string \<Rightarrow> scope \<Rightarrow> string" where
  "signing_key cr secret sc =
     hmac cr (hmac cr (hmac cr (hmac cr (''AWS4'' @ secret) (date sc)) (s_region sc)) (s_service sc))
       ''aws4_request''"

text \<open>
  Modelled from the spec: the contract \<^verbatim>\<open>sign(stringToSign,
  credentials, scope)\<close> of section 4.3, which fails with MissingCredentials when
  the access key or the secret is missing. In the repository this is inside
  \<^verbatim>\<open>aws4.sign\<close>, whose code is not part of it.
\<close>

definition sign :: "crypto \<Rightarrow> string \<Rightarrow> credentials \<Rightarrow> scope \<Rightarrow> error + string" where
  "sign cr stringToSign creds sc =
     (case (accessKeyId creds, secretAccessKey creds) of
        (Some ak, Some secret) \<Rightarrow> Inr (hex (hmac cr (signing_key cr secret sc) stringToSign))
      | _ \<Rightarrow> Inl MissingCredentials)"

text \<open>
  Modelled from the spec: the value of the Authorization header (section 4.3); missing
  from the repository.
\<close>

definition authorization_value :: "string \<Rightarrow> scope \<Rightarrow> string \<Rightarrow> string \<Rightarrow> string" where
  "authorization_value ak sc signedHeaders signature =
     ''AWS4-HMAC-SHA256 Credential='' @ ak @ ''/'' @ credential_scope sc
     @ '', SignedHeaders='' @ signedHeaders @ '', Signature='' @ signature"

text \<open>
  Modelled from the spec: the split of the query into pairs (the pipeline of section
  4.4: split the resolved URL into path and query); missing from the repository.
\<close>

definition parse_query :: "string \<Rightarrow> (string \<times> string) list" where
  "parse_query qs =
     map (\<lambda>p. (takeWhile (\<lambda>c. c \<noteq> CHR ''='') p, drop 1 (dropWhile (\<lambda>c. c \<noteq> CHR ''='') p)))
       (filter (\<lambda>p. p \<noteq> []) (split_on (CHR ''&'') qs))"

text \<open>
  Modelled from the spec: the descriptor's headers map names to strings (section 3); a
  headers object of the source with an \<^verbatim>\<open>undefined\<close> value has no
  such reading.
\<close>

fun defined_headers :: "headers \<Rightarrow> (string \<times> string) list option" where
  "defined_headers [] = Some []"
| "defined_headers ((n, None) # hs) = None"
| "defined_headers ((n, Some v) # hs) = map_option ((#) (n, v)) (defined_headers hs)"

text \<open>
  Modelled from the spec: the canonical headers must include a host header (section 4.2,
  step 4): one is added when no name is \<^verbatim>\<open>host\<close> in any case.
\<close>

definition with_host :: "string \<Rightarrow> (string \<times> string) list \<Rightarrow> (string \<times> string) list" where
  "with_host h hs =
     (if \<exists>n \<in> set (map fst hs). map to_lower n = ''host'' then hs else hs @ [(''Host'', h)])"

text \<open>
  Modelled from the spec: the descriptor the pipeline of section 4.4 canonicalizes, read
  from the object \<^verbatim>\<open>opts\<close> of the source: the path is split at
  the first question mark. An undefined method, host or header value is an unexpected
  internal state (section 7).
\<close>

definition descriptor_of :: "opts \<Rightarrow> error + descriptor" where
  "descriptor_of opts =
     (case (o_method opts, host opts, defined_headers (o_headers opts)) of
        (Some m, Some h, Some hs) \<Rightarrow>
          Inr \<lparr>d_method = m, d_host = h,
               d_path = takeWhile (\<lambda>c. c \<noteq> CHR ''?'') (path opts),
               d_query = parse_query (drop 1 (dropWhile (\<lambda>c. c \<noteq> CHR ''?'') (path opts))),
               d_headers = with_host h hs,
               d_body = o_body opts\<rparr>
      | _ \<Rightarrow> Inl SigningComputationFailure)"

text \<open>
  Modelled from the spec: the timestamp of the request (section 3: computed from the
  current instant), in the basic format, from the clock's ISO text; missing from the
  repository.
\<close>

definition amz_timestamp :: "string \<Rightarrow> string" where
  "amz_timestamp clock =
     filter (\<lambda>c. c \<noteq> CHR ''-'' \<and> c \<noteq> CHR '':'') (takeWhile (\<lambda>c. c \<noteq> CHR ''.'') clock) @ ''Z''"

text \<open>
  Modelled from the spec: the first half of the pipeline of section 4.4 for one call:
  the descriptor with the timestamp header set, the scope computed from the clock, and
  the timestamp. An undefined region is an unexpected internal state.
\<close>

definition prepare :: "opts \<Rightarrow> string \<Rightarrow> error + descriptor \<times> scope \<times> string" where
  "prepare opts clock =
     (case (descriptor_of opts, region opts) of
        (Inr d, Some rg) \<Rightarrow>
          (let timestamp = amz_timestamp clock
           in Inr (d\<lparr>d_headers := AList.update ''X-Amz-Date'' timestamp (d_headers d)\<rparr>,
                   \<lparr>date = take 8 timestamp, s_region = rg, s_service = service opts\<rparr>,
                   timestamp))
      | (Inl err, _) \<Rightarrow> Inl err
      | (_, None) \<Rightarrow> Inl SigningComputationFailure)"

text \<open>
  Modelled from the spec: the signer that \<^verbatim>\<open>signRequest\<close> calls
  (in the repository \<^verbatim>\<open>aws4.sign\<close>, a dependency whose code is
  not under the repository), as sections 4.2 to 4.4 describe it: credentials are checked
  first (section 3: signing fails fast), then canonicalize, sign, and merge the
  timestamp, the optional session token and the Authorization header into the headers.
\<close>

definition spec_sign :: "crypto \<Rightarrow> signer" where
  "spec_sign cr opts creds clock =
     (case (accessKeyId creds, secretAccessKey creds) of
        (Some ak, Some secret) \<Rightarrow>
          (case prepare opts clock of
             Inl err \<Rightarrow> Inl err
           | Inr (d, sc, timestamp) \<Rightarrow>
               (case sign cr (snd (canonicalize cr d sc timestamp)) creds sc of
                  Inl err \<Rightarrow> Inl err
                | Inr signature \<Rightarrow>
                    (let withToken =
                           (case sessionToken creds of
                              None \<Rightarrow> d_headers d
                            | Some t \<Rightarrow> AList.update ''X-Amz-Security-Token'' t (d_headers d));
                         merged = AList.update ''Authorization''
                           (authorization_value ak sc (signed_headers (d_headers d)) signature)
                           withToken
                     in Inr (map (\<lambda>(n, v). (n, Some v)) merged))))
      | _ \<Rightarrow> Inl MissingCredentials)"

section \<open>More example inputs\<close>

text \<open>
  A test double for the hash primitives: each returns a text that records its inputs.
\<close>

definition example_crypto :: crypto where
  "example_crypto = \<lparr>sha256 = (\<lambda>m. ''h('' @ m @ '')''), hmac = (\<lambda>k m. ''mac('' @ k @ '','' @ m @ '')'')\<rparr>"

text \<open>The request \<^verbatim>\<open>GET /status\<close> with given headers, and what the signer makes of it.\<close>

definition status_request :: "headers \<Rightarrow> requestParams" where
  "status_request hs =
     \<lparr>url = ''/status'', http_method = Some ''GET'', headers = hs, json = None, body = None\<rparr>"

definition status_descriptor :: "(string \<times> string) list \<Rightarrow> descriptor" where
  "status_descriptor hs =
     \<lparr>d_method = ''GET'', d_host = ''api.example.com'', d_path = ''/status'', d_query = [],
      d_headers = hs @ [(''Host'', ''api.example.com''), (''X-Amz-Date'', ''20240101T000000Z'')],
      d_body = None\<rparr>"

definition example_scope :: scope where
  "example_scope = \<lparr>date = ''20240101'', s_region = ''us-east-1'', s_service = ''execute-api''\<rparr>"

definition example_credentials :: credentials where
  "example_credentials =
     \<lparr>accessKeyId = Some ''AKIDEXAMPLE'', secretAccessKey = Some ''secret'', sessionToken = None\<rparr>"

section \<open>Properties of the signing pipeline with the signer of the specification\<close>

text \<open>
  Two header lists that are the same but for the value of one entry.
\<close>

definition differ_at :: "'k \<Rightarrow> 'v \<Rightarrow> 'v \<Rightarrow> ('k \<times> 'v) list \<Rightarrow> ('k \<times> 'v) list \<Rightarrow> bool" where
  "differ_at k v1 v2 xs ys \<longleftrightarrow> (\<exists>A B. xs = A @ [(k, v1)] @ B \<and> ys = A @ [(k, v2)] @ B)"

lemma differ_atI: "xs = A @ [(k, v1)] @ B \<Longrightarrow> ys = A @ [(k, v2)] @ B \<Longrightarrow> differ_at k v1 v2 xs ys"
  unfolding differ_at_def by blast

lemma differ_at_Cons: "differ_at k v1 v2 xs ys \<Longrightarrow> differ_at k v1 v2 (p # xs) (p # ys)"
  unfolding differ_at_def by (metis append_Cons)

lemma differ_at_append: "differ_at k v1 v2 xs ys \<Longrightarrow> differ_at k v1 v2 (xs @ zs) (ys @ zs)"
  unfolding differ_at_def by (metis append_assoc)

lemma differ_at_names: "differ_at k v1 v2 xs ys \<Longrightarrow> map fst xs = map fst ys"
  unfolding differ_at_def by auto

lemma differ_at_map:
  assumes "differ_at k v1 v2 xs ys"
  shows "differ_at (f k) (g v1) (g v2) (map (\<lambda>(n, v). (f n, g v)) xs) (map (\<lambda>(n, v). (f n, g v)) ys)"
proof -
  from assms obtain A B where "xs = A @ [(k, v1)] @ B" and "ys = A @ [(k, v2)] @ B"
    unfolding differ_at_def by blast
  then show ?thesis
    by (auto intro: differ_atI [of _ "map (\<lambda>(n, v). (f n, g v)) A" "f k" "g v1"
          "map (\<lambda>(n, v). (f n, g v)) B"])
qed

lemma differ_at_insert_same:
  assumes "differ_at n w1 w2 xs ys"
  shows "differ_at n w1 w2 (insert_by name_le x xs) (insert_by name_le x ys)"
proof -
  from assms obtain A B where xs: "xs = A @ [(n, w1)] @ B" and ys: "ys = A @ [(n, w2)] @ B"
    unfolding differ_at_def by blast
  have "differ_at n w1 w2 (insert_by name_le x (A @ [(n, w1)] @ B))
          (insert_by name_le x (A @ [(n, w2)] @ B))"
  proof (induction A)
    case Nil
    show ?case
    proof (cases "name_le x (n, w1)")
      case True
      then have "name_le x (n, w2)" by (simp add: name_le_def)
      with True show ?thesis by (auto intro: differ_atI [of _ "[x]" n w1 B])
    next
      case False
      then have "\<not> name_le x (n, w2)" by (simp add: name_le_def)
      with False show ?thesis by (auto intro: differ_atI [of _ "[]" n w1 "insert_by name_le x B"])
    qed
  next
    case (Cons p A)
    show ?case
    proof (cases "name_le x p")
      case True
      have "differ_at n w1 w2 (A @ [(n, w1)] @ B) (A @ [(n, w2)] @ B)"
        by (rule differ_atI) (rule refl)+
      then have "differ_at n w1 w2 (x # p # A @ [(n, w1)] @ B) (x # p # A @ [(n, w2)] @ B)"
        by (intro differ_at_Cons)
      with True show ?thesis by simp
    next
      case False
      with Cons show ?thesis by (simp add: differ_at_Cons)
    qed
  qed
  with xs ys show ?thesis by simp
qed

lemma differ_at_insert_new:
  "differ_at n w1 w2 (insert_by name_le (n, w1) S) (insert_by name_le (n, w2) S)"
proof (induction S)
  case Nil
  show ?case by (auto intro: differ_atI [of _ "[]" n w1 "[]"])
next
  case (Cons p S)
  have eq: "name_le (n, w1) p = name_le (n, w2) p" by (simp add: name_le_def)
  show ?case
  proof (cases "name_le (n, w1) p")
    case True
    with eq show ?thesis by (auto intro: differ_atI [of _ "[]" n w1 "p # S"])
  next
    case False
    with eq Cons show ?thesis by (auto intro: differ_at_Cons)
  qed
qed

lemma differ_at_sort:
  assumes "differ_at n w1 w2 xs ys"
  shows "differ_at n w1 w2 (sort_by name_le xs) (sort_by name_le ys)"
proof -
  from assms obtain A B where xs: "xs = A @ [(n, w1)] @ B" and ys: "ys = A @ [(n, w2)] @ B"
    unfolding differ_at_def by blast
  have "differ_at n w1 w2 (sort_by name_le (A @ [(n, w1)] @ B)) (sort_by name_le (A @ [(n, w2)] @ B))"
  proof (induction A)
    case Nil
    show ?case using differ_at_insert_new [of n w1 w2 "sort_by name_le B"]
      by (simp add: sort_by_def)
  next
    case (Cons p A)
    then show ?case using differ_at_insert_same [of n w1 w2 _ _ p]
      by (simp add: sort_by_def)
  qed
  with xs ys show ?thesis by simp
qed

lemma differ_at_lines:
  assumes "differ_at n w1 w2 xs ys"
  shows "concat (map (\<lambda>(n, v). n @ '':'' @ v @ [CHR 0x0A]) xs)
           = concat (map (\<lambda>(n, v). n @ '':'' @ v @ [CHR 0x0A]) ys) \<longleftrightarrow> w1 = w2"
proof -
  from assms obtain A B where "xs = A @ [(n, w1)] @ B" and "ys = A @ [(n, w2)] @ B"
    unfolding differ_at_def by blast
  then show ?thesis by auto
qed


lemma canonical_entries_differ:
  assumes "differ_at k v1 v2 hs1 hs2"
  shows "differ_at (map to_lower k) (normalize_value v1) (normalize_value v2)
           (canonical_entries hs1) (canonical_entries hs2)"
  unfolding canonical_entries_def using assms by (intro differ_at_sort differ_at_map)

lemma canonical_request_differ:
  assumes "differ_at k v1 v2 (d_headers d1) (d_headers d2)"
    and "d_method d1 = d_method d2" and "d_path d1 = d_path d2" and "d_query d1 = d_query d2"
    and "d_body d1 = d_body d2"
  shows "canonical_request cr d1 = canonical_request cr d2
           \<longleftrightarrow> normalize_value v1 = normalize_value v2"
proof -
  note e = canonical_entries_differ [OF assms(1)]
  have s: "signed_headers (d_headers d1) = signed_headers (d_headers d2)"
    unfolding signed_headers_def using differ_at_names [OF e] by simp
  have h: "canonical_headers (d_headers d1) = canonical_headers (d_headers d2)
             \<longleftrightarrow> normalize_value v1 = normalize_value v2"
    unfolding canonical_headers_def using e by (rule differ_at_lines)
  show ?thesis
    unfolding canonical_request_def using assms(2-5) s h by simp
qed


text \<open>The hexadecimal encoding loses nothing.\<close>

lemma hex_digit_inj: "a < 16 \<Longrightarrow> b < 16 \<Longrightarrow> hex_digit a = hex_digit b \<Longrightarrow> a = b"
proof -
  have d: "distinct ''0123456789abcdef''" by simp
  have l: "length ''0123456789abcdef'' = 16" by simp
  show "a < 16 \<Longrightarrow> b < 16 \<Longrightarrow> hex_digit a = hex_digit b \<Longrightarrow> a = b"
    unfolding hex_digit_def using nth_eq_iff_index_eq [OF d, of a b] l by simp
qed

lemma hex_char_inj:
  assumes "[hex_digit (of_char c div 16), hex_digit (of_char c mod 16)]
             = [hex_digit (of_char d div 16), hex_digit (of_char d mod 16)]"
  shows "c = d"
proof -
  have c: "(of_char c :: nat) < 256" and d: "(of_char d :: nat) < 256"
    by (rule nat_of_char_less_256)+
  then have "(of_char c :: nat) div 16 < 16" "(of_char d :: nat) div 16 < 16" by presburger+
  moreover have "(of_char c :: nat) mod 16 < 16" "(of_char d :: nat) mod 16 < 16" by simp_all
  ultimately have "(of_char c :: nat) div 16 = of_char d div 16"
    and "(of_char c :: nat) mod 16 = of_char d mod 16"
    using assms hex_digit_inj by auto
  then have "(of_char c :: nat) = of_char d"
    by (metis div_mult_mod_eq)
  then show ?thesis by simp
qed

lemma hex_inj: "hex a = hex b \<Longrightarrow> a = b"
proof (induction a arbitrary: b)
  case Nil
  then show ?case by (cases b) (simp_all add: hex_def)
next
  case (Cons c a)
  then obtain d b' where b: "b = d # b'" by (cases b) (auto simp: hex_def)
  from Cons.prems b have "c = d" "hex a = hex b'"
    using hex_char_inj [of c d] by (auto simp: hex_def)
  with Cons.IH b show ?case by simp
qed

text \<open>
  Claim C7, as amended.  Take two signing runs with the same credentials, scope and
  timestamp on descriptors that differ only in the value of one signed header.  When the
  two values are equal after the trimming and the collapsing of white space that the
  canonicalizer applies to header values, the two runs give the same result, signature
  included.  When the two values differ after it, the credentials are complete and the
  hash and the keyed hash have no collisions, the two signatures differ.
\<close>

theorem header_value_changes_signature:
  "(normalize_value v1 = normalize_value v2 \<longrightarrow>
      sign cr (snd (canonicalize cr (d\<lparr>d_headers := A @ [(k, v1)] @ B\<rparr>) sc timestamp)) creds sc
        = sign cr (snd (canonicalize cr (d\<lparr>d_headers := A @ [(k, v2)] @ B\<rparr>) sc timestamp)) creds sc) \<and>
   (normalize_value v1 \<noteq> normalize_value v2 \<and> inj (sha256 cr) \<and> (\<forall>key. inj (hmac cr key))
      \<and> accessKeyId creds = Some ak \<and> secretAccessKey creds = Some secret \<longrightarrow>
      sign cr (snd (canonicalize cr (d\<lparr>d_headers := A @ [(k, v1)] @ B\<rparr>) sc timestamp)) creds sc
        \<noteq> sign cr (snd (canonicalize cr (d\<lparr>d_headers := A @ [(k, v2)] @ B\<rparr>) sc timestamp)) creds sc)"
proof -
  let ?d1 = "d\<lparr>d_headers := A @ [(k, v1)] @ B\<rparr>" and ?d2 = "d\<lparr>d_headers := A @ [(k, v2)] @ B\<rparr>"
  have "differ_at k v1 v2 (d_headers ?d1) (d_headers ?d2)"
    by (rule differ_atI [of _ A _ _ B]) simp_all
  then have c: "canonical_request cr ?d1 = canonical_request cr ?d2
      \<longleftrightarrow> normalize_value v1 = normalize_value v2"
    by (rule canonical_request_differ) simp_all
  have same: "sign cr (snd (canonicalize cr ?d1 sc timestamp)) creds sc
      = sign cr (snd (canonicalize cr ?d2 sc timestamp)) creds sc"
    if "normalize_value v1 = normalize_value v2"
    using that c by (simp add: canonicalize_def)
  have other: "sign cr (snd (canonicalize cr ?d1 sc timestamp)) creds sc
      \<noteq> sign cr (snd (canonicalize cr ?d2 sc timestamp)) creds sc"
    if n: "normalize_value v1 \<noteq> normalize_value v2" and h: "inj (sha256 cr)"
      and m: "\<forall>key. inj (hmac cr key)"
      and ak: "accessKeyId creds = Some ak" and sk: "secretAccessKey creds = Some secret"
  proof
    assume "sign cr (snd (canonicalize cr ?d1 sc timestamp)) creds sc
      = sign cr (snd (canonicalize cr ?d2 sc timestamp)) creds sc"
    then have "hex (hmac cr (signing_key cr secret sc)
                 (string_to_sign cr timestamp sc (canonical_request cr ?d1)))
             = hex (hmac cr (signing_key cr secret sc)
                 (string_to_sign cr timestamp sc (canonical_request cr ?d2)))"
      using ak sk by (simp add: sign_def canonicalize_def)
    then have "hmac cr (signing_key cr secret sc)
                 (string_to_sign cr timestamp sc (canonical_request cr ?d1))
             = hmac cr (signing_key cr secret sc)
                 (string_to_sign cr timestamp sc (canonical_request cr ?d2))"
      by (rule hex_inj)
    then have "string_to_sign cr timestamp sc (canonical_request cr ?d1)
             = string_to_sign cr timestamp sc (canonical_request cr ?d2)"
      using m by (auto dest: injD)
    then have "hex (sha256 cr (canonical_request cr ?d1)) = hex (sha256 cr (canonical_request cr ?d2))"
      by (simp add: string_to_sign_def)
    then have "sha256 cr (canonical_request cr ?d1) = sha256 cr (canonical_request cr ?d2)"
      by (rule hex_inj)
    then have "canonical_request cr ?d1 = canonical_request cr ?d2"
      using h by (auto dest: injD)
    with c n show False by simp
  qed
  from same other show ?thesis by blast
qed

text \<open>
  Claim C3.  With the signer of the specification, a missing access key id or a missing
  secret access key makes \<^verbatim>\<open>signRequest\<close> end in \<^verbatim>\<open>next(err)\<close> and leave the
  descriptor's headers exactly as they were (so no Authorization header is added); when
  the resolved URL parses and the signer is reached (the line for the debug log, if one
  is due, can be appended), the error is MissingCredentials.
\<close>

theorem signRequest_missing_credentials:
  assumes "APP_AWS_KEY e = None \<or> APP_AWS_SECRET e = None"
  shows "fst (signRequest url_parse (spec_sign cr) e rp vars w) \<noteq> None \<and>
         headers (fst (snd (signRequest url_parse (spec_sign cr) e rp vars w))) = headers rp \<and>
         (url_parse (resolveTemplate (url rp) vars) = Inr pu
            \<and> (signed_body rp vars = None \<or> unwritable w DEBUG_LOG = None) \<longrightarrow>
            fst (signRequest url_parse (spec_sign cr) e rp vars w) = Some MissingCredentials)"
proof -
  have "spec_sign cr opts (signing_creds e) clock = Inl MissingCredentials" for opts clock
    using assms by (auto simp: spec_sign_def signing_creds_def split: option.splits)
  then show ?thesis
    by (auto simp: signRequest_def Let_def debug_logged_def logToFile_def
        split: sum.splits option.splits if_splits)
qed

text \<open>
  Claim C6.  Two runs of \<^verbatim>\<open>signRequest\<close> on the same descriptor and variable context,
  with the same target host, region and credentials in the environment and the same clock
  reading, pass the same argument to \<^verbatim>\<open>next\<close> and leave the same descriptor, and so
  the same headers with the same Authorization value and signature, whatever the
  contents of the log files, the file system and the logging flags, and whatever function
  of its arguments and the clock the signer is; the debug log is taken to be writable in
  both runs, or to fail with the same error in both.
\<close>

theorem signRequest_deterministic:
  assumes "now w1 = now w2" and "unwritable w1 DEBUG_LOG = unwritable w2 DEBUG_LOG"
    and "TARGET_HOST e1 = TARGET_HOST e2" and "AWS_REGION e1 = AWS_REGION e2"
    and "APP_AWS_KEY e1 = APP_AWS_KEY e2" and "APP_AWS_SECRET e1 = APP_AWS_SECRET e2"
    and "APP_AWS_SESSION e1 = APP_AWS_SESSION e2"
  shows "fst (signRequest url_parse aws4_sign e1 rp vars w1) = fst (signRequest url_parse aws4_sign e2 rp vars w2) \<and>
         fst (snd (signRequest url_parse aws4_sign e1 rp vars w1))
           = fst (snd (signRequest url_parse aws4_sign e2 rp vars w2))"
proof -
  have o: "signing_opts e1 rp cp b = signing_opts e2 rp cp b" for cp b
    using assms by (simp add: signing_opts_def)
  have c: "signing_creds e1 = signing_creds e2"
    using assms by (simp add: signing_creds_def)
  have d: "(case debug_logged b w1 of Inl err \<Rightarrow> Inl err | Inr w \<Rightarrow> Inr (now w))
         = (case debug_logged b w2 of Inl err \<Rightarrow> Inl err | Inr w \<Rightarrow> Inr (now w))" for b
    using assms(1,2) by (simp add: debug_logged_def logToFile_def split: option.splits)
  show ?thesis
  proof (cases "url_parse (resolveTemplate (url rp) vars)")
    case (Inl err)
    then show ?thesis by (simp add: signRequest_def)
  next
    case (Inr pu)
    show ?thesis
    proof (cases "signed_body rp vars")
      case None
      with Inr assms(1) show ?thesis
        by (simp add: signRequest_def Let_def o c split: sum.splits)
    next
      case (Some b)
      with Inr d [of b] show ?thesis
        by (auto simp: signRequest_def Let_def o c split: sum.splits)
    qed
  qed
qed

lemma map_of_update_Some:
  "map_of (map (\<lambda>(n, v). (n, Some v)) (AList.update k x hs)) k = Some (Some x)"
  by (induction hs) auto

lemma spec_sign_Authorization:
  assumes "accessKeyId creds = Some ak" and "secretAccessKey creds = Some secret"
    and "prepare opts clock = Inr (d, sc, timestamp)"
  shows "\<exists>hs. spec_sign cr opts creds clock = Inr hs \<and>
           map_of hs ''Authorization'' =
             Some (Some (authorization_value ak sc (signed_headers (d_headers d))
               (hex (hmac cr (signing_key cr secret sc)
                  (string_to_sign cr timestamp sc (canonical_request cr d))))))"
  using assms
  by (simp add: spec_sign_def sign_def canonicalize_def Let_def map_of_update_Some)

lemma prepare_note:
  "prepare (signing_opts example_env (status_request [(''X-Note'', Some v)]) ''/status'' None)
     ''2024-01-01T00:00:00.000Z''
   = Inr (status_descriptor [(''X-Note'', v)], example_scope, ''20240101T000000Z'')"
  by (simp add: prepare_def signing_opts_def example_env_def status_request_def descriptor_of_def
      with_host_def to_lower_def upper_case_def lower_case_def amz_timestamp_def parse_query_def
      SERVICE_NAME_def status_descriptor_def example_scope_def Let_def)

lemma signRequest_Authorization:
  assumes "url_parse (resolveTemplate (url rp) vars) = Inr pu"
    and "signed_body rp vars = None"
    and "APP_AWS_KEY e = Some ak" and "APP_AWS_SECRET e = Some secret"
    and "prepare (signing_opts e rp (canonicalPath_of pu) None) (now w) = Inr (d, sc, timestamp)"
  shows "fst (signRequest url_parse (spec_sign cr) e rp vars w) = None \<and>
         map_of (headers (fst (snd (signRequest url_parse (spec_sign cr) e rp vars w))))
           ''Authorization''
         = Some (Some (authorization_value ak sc (signed_headers (d_headers d))
             (hex (hmac cr (signing_key cr secret sc)
                (string_to_sign cr timestamp sc (canonical_request cr d))))))"
proof -
  have c: "accessKeyId (signing_creds e) = Some ak" "secretAccessKey (signing_creds e) = Some secret"
    using assms(3,4) by (simp_all add: signing_creds_def)
  from spec_sign_Authorization [OF c assms(5), of cr] obtain hs where
    hs: "spec_sign cr (signing_opts e rp (canonicalPath_of pu) None) (signing_creds e) (now w) = Inr hs"
    and a: "map_of hs ''Authorization''
         = Some (Some (authorization_value ak sc (signed_headers (d_headers d))
             (hex (hmac cr (signing_key cr secret sc)
                (string_to_sign cr timestamp sc (canonical_request cr d))))))"
    by blast
  show ?thesis
    using assms(1,2) hs a by (simp add: signRequest_def Let_def)
qed

lemma status_url:
  "relative_url_parse (resolveTemplate (url (status_request hs)) vars)
     = Inr \<lparr>protocol = None, u_host = None, pathname = Some ''/status'', search = None,
            hash = None\<rparr>"
proof -
  have "\<not> has_match ''/status''" by (simp add: placeholder_re_eq)
  then have "resolveTemplate ''/status'' vars = ''/status''" by (rule resolveTemplate_no_match)
  then show ?thesis by (simp add: status_request_def relative_url_parse_def)
qed

lemma status_authorization:
  assumes "prepare (signing_opts example_env (status_request hs) ''/status'' None)
             ''2024-01-01T00:00:00.000Z'' = Inr (d, sc, timestamp)"
  shows "fst (signRequest relative_url_parse (spec_sign cr) example_env (status_request hs)
                Map.empty example_world) = None \<and>
         map_of (headers (fst (snd (signRequest relative_url_parse (spec_sign cr) example_env
                (status_request hs) Map.empty example_world)))) ''Authorization''
         = Some (Some (authorization_value ''AKIDEXAMPLE'' sc (signed_headers (d_headers d))
             (hex (hmac cr (signing_key cr ''secret'' sc)
                (string_to_sign cr timestamp sc (canonical_request cr d))))))"
proof (rule signRequest_Authorization
    [where url_parse = relative_url_parse and rp = "status_request hs" and vars = Map.empty
       and pu = "\<lparr>protocol = None, u_host = None, pathname = Some ''/status'',
             search = None, hash = None\<rparr>"])
  show "relative_url_parse (resolveTemplate (url (status_request hs)) Map.empty)
     = Inr \<lparr>protocol = None, u_host = None, pathname = Some ''/status'', search = None,
            hash = None\<rparr>"
    by (rule status_url)
  show "signed_body (status_request hs) Map.empty = None"
    by (simp add: signed_body_def status_request_def)
  show "APP_AWS_KEY example_env = Some ''AKIDEXAMPLE''" by (simp add: example_env_def)
  show "APP_AWS_SECRET example_env = Some ''secret''" by (simp add: example_env_def)
  show "prepare (signing_opts example_env (status_request hs)
          (canonicalPath_of \<lparr>protocol = None, u_host = None, pathname = Some ''/status'',
             search = None, hash = None\<rparr>) None) (now example_world) = Inr (d, sc, timestamp)"
    using assms
    by (simp add: canonicalPath_of_def example_world_def)
qed

lemma status_descriptor_headers:
  "status_descriptor [(k, v)]
     = (status_descriptor [])\<lparr>d_headers := [] @ [(k, v)]
          @ [(''Host'', ''api.example.com''), (''X-Amz-Date'', ''20240101T000000Z'')]\<rparr>"
  by (simp add: status_descriptor_def)

lemma note_normalized: "normalize_value ''a b'' = normalize_value ''a  b''"
  by (simp add: normalize_value_def trim_def is_space_def)

lemma note_spaces:
  "canonical_request cr (status_descriptor [(''X-Note'', ''a b'')])
     = canonical_request cr (status_descriptor [(''X-Note'', ''a  b'')])
   \<and> signed_headers (d_headers (status_descriptor [(''X-Note'', ''a b'')]))
     = signed_headers (d_headers (status_descriptor [(''X-Note'', ''a  b'')]))"
proof -
  have d: "differ_at ''X-Note'' ''a b'' ''a  b''
             (d_headers (status_descriptor [(''X-Note'', ''a b'')]))
             (d_headers (status_descriptor [(''X-Note'', ''a  b'')]))"
    by (rule differ_atI [of _ "[]" _ _ "[(''Host'', ''api.example.com''), (''X-Amz-Date'', ''20240101T000000Z'')]"])
       (simp_all add: status_descriptor_def)
  have "canonical_request cr (status_descriptor [(''X-Note'', ''a b'')])
     = canonical_request cr (status_descriptor [(''X-Note'', ''a  b'')])"
    using canonical_request_differ [OF d, of cr] note_normalized by (simp add: status_descriptor_def)
  moreover have "signed_headers (d_headers (status_descriptor [(''X-Note'', ''a b'')]))
     = signed_headers (d_headers (status_descriptor [(''X-Note'', ''a  b'')]))"
    unfolding signed_headers_def using differ_at_names [OF canonical_entries_differ [OF d]] by simp
  ultimately show ?thesis by simp
qed

text \<open>
  The claim as stated fails.  Two requests whose header \<^verbatim>\<open>X-Note\<close>, a signed header,
  has the values \<^verbatim>\<open>a b\<close> and \<^verbatim>\<open>a  b\<close>, which differ in the number of spaces
  between the two words, have the same canonical request: the two runs of the pipeline
  succeed with the same Authorization header, signature included.
\<close>

theorem header_value_counterexample:
  "''a b'' \<noteq> ''a  b'' \<and>
   fst (signRequest relative_url_parse (spec_sign example_crypto) example_env
          (status_request [(''X-Note'', Some ''a b'')]) Map.empty example_world) = None \<and>
   fst (signRequest relative_url_parse (spec_sign example_crypto) example_env
          (status_request [(''X-Note'', Some ''a  b'')]) Map.empty example_world) = None \<and>
   map_of (headers (fst (snd (signRequest relative_url_parse (spec_sign example_crypto) example_env
          (status_request [(''X-Note'', Some ''a b'')]) Map.empty example_world))))
     ''Authorization''
   = map_of (headers (fst (snd (signRequest relative_url_parse (spec_sign example_crypto) example_env
          (status_request [(''X-Note'', Some ''a  b'')]) Map.empty example_world))))
     ''Authorization'' \<and>
   map_of (headers (fst (snd (signRequest relative_url_parse (spec_sign example_crypto) example_env
          (status_request [(''X-Note'', Some ''a b'')]) Map.empty example_world))))
     ''Authorization'' \<noteq> None \<and>
   sign example_crypto
     (snd (canonicalize example_crypto (status_descriptor [(''X-Note'', ''a b'')]) example_scope
        ''20240101T000000Z'')) example_credentials example_scope
   = sign example_crypto
     (snd (canonicalize example_crypto (status_descriptor [(''X-Note'', ''a  b'')]) example_scope
        ''20240101T000000Z'')) example_credentials example_scope"
proof -
  note n1 = status_authorization [OF prepare_note [of "''a b''"], of example_crypto]
  note n2 = status_authorization [OF prepare_note [of "''a  b''"], of example_crypto]
  note s = note_spaces [of example_crypto]
  have "sign example_crypto
     (snd (canonicalize example_crypto (status_descriptor [(''X-Note'', ''a b'')]) example_scope
        ''20240101T000000Z'')) example_credentials example_scope
   = sign example_crypto
     (snd (canonicalize example_crypto (status_descriptor [(''X-Note'', ''a  b'')]) example_scope
        ''20240101T000000Z'')) example_credentials example_scope"
    using s by (simp add: canonicalize_def)
  then show ?thesis
    by (simp only: n1 n2 s simp_thms option.simps list.inject char.inject)
qed

theorem header_value_changes_signature_witness:
  "sign example_crypto
     (snd (canonicalize example_crypto (status_descriptor [(''X-Note'', ''a'')]) example_scope
        ''20240101T000000Z'')) example_credentials example_scope
   \<noteq> sign example_crypto
     (snd (canonicalize example_crypto (status_descriptor [(''X-Note'', ''b'')]) example_scope
        ''20240101T000000Z'')) example_credentials example_scope \<and>
   sign example_crypto
     (snd (canonicalize example_crypto (status_descriptor [(''X-Note'', '' a'')]) example_scope
        ''20240101T000000Z'')) example_credentials example_scope
   = sign example_crypto
     (snd (canonicalize example_crypto (status_descriptor [(''X-Note'', ''a  '')]) example_scope
        ''20240101T000000Z'')) example_credentials example_scope"
proof -
  have n: "normalize_value ''a'' \<noteq> normalize_value ''b''"
    "normalize_value '' a'' = normalize_value ''a  ''"
    by (simp_all add: normalize_value_def trim_def is_space_def)
  have h: "inj (sha256 example_crypto)" "\<forall>key. inj (hmac example_crypto key)"
    by (simp_all add: example_crypto_def inj_def)
  have c: "accessKeyId example_credentials = Some ''AKIDEXAMPLE''"
    "secretAccessKey example_credentials = Some ''secret''"
    by (simp_all add: example_credentials_def)
  note t = header_value_changes_signature
    [where cr = example_crypto and d = "status_descriptor []" and A = "[]" and k = "''X-Note''"
       and B = "[(''Host'', ''api.example.com''), (''X-Amz-Date'', ''20240101T000000Z'')]"
       and sc = example_scope and timestamp = "''20240101T000000Z''"
       and creds = example_credentials and ak = "''AKIDEXAMPLE''" and secret = "''secret''",
     folded status_descriptor_headers]
  from t [of "''a''" "''b''"] t [of "'' a''" "''a  ''"] n h c show ?thesis by blast
qed

theorem signRequest_missing_credentials_witness:
  "fst (signRequest relative_url_parse (spec_sign example_crypto)
          (example_env\<lparr>APP_AWS_SECRET := None\<rparr>) example_request example_vars example_world)
     = Some MissingCredentials \<and>
   headers (fst (snd (signRequest relative_url_parse (spec_sign example_crypto)
          (example_env\<lparr>APP_AWS_SECRET := None\<rparr>) example_request example_vars example_world)))
     = headers example_request"
proof -
  have u: "relative_url_parse (resolveTemplate (url example_request) example_vars)
      = Inr \<lparr>protocol = None, u_host = None, pathname = Some ''/items/42'',
             search = Some ''?v=1'', hash = None\<rparr>"
    by (simp add: example_request_def example_url example_parse)
  have m: "APP_AWS_KEY (example_env\<lparr>APP_AWS_SECRET := None\<rparr>) = None
             \<or> APP_AWS_SECRET (example_env\<lparr>APP_AWS_SECRET := None\<rparr>) = None"
    by simp
  have w: "unwritable example_world DEBUG_LOG = None" by (simp add: example_world_def)
  from signRequest_missing_credentials [OF m, of relative_url_parse example_crypto example_request
      example_vars example_world] u w
  show ?thesis by simp
qed

theorem signRequest_deterministic_witness:
  "fst (signRequest relative_url_parse (spec_sign example_crypto) example_env example_request
          example_vars example_world)
     = fst (signRequest relative_url_parse (spec_sign example_crypto)
          (example_env\<lparr>DEBUG_LOG_BODY_ENABLED := True\<rparr>) example_request example_vars
          (example_world\<lparr>logs := (\<lambda>_. [''an earlier line''])\<rparr>)) \<and>
   fst (snd (signRequest relative_url_parse (spec_sign example_crypto) example_env example_request
          example_vars example_world))
     = fst (snd (signRequest relative_url_parse (spec_sign example_crypto)
          (example_env\<lparr>DEBUG_LOG_BODY_ENABLED := True\<rparr>) example_request example_vars
          (example_world\<lparr>logs := (\<lambda>_. [''an earlier line''])\<rparr>)))"
  by (rule signRequest_deterministic) simp_all

end
